theory Spec2Isabelle
  imports Main "HOL-Library.Word" "HOL-Library.AList"
begin

unbundle bit_operations_syntax

section \<open>Errors\<close>

text \<open>
  Go error values. \<open>ErrHelp\<close>, \<open>errParse\<close> and \<open>errRange\<close> are the three sentinels of
  the package; \<open>ErrSyntax\<close>, \<open>ErrRange\<close> and \<open>NumError\<close> are the values of package
  strconv; \<open>ErrorsNew msg\<close> is a value made by \<open>errors.New(msg)\<close> (or any other error of
  a caller whose text is \<open>msg\<close>). Comparing an error with a sentinel (\<open>err == ErrHelp\<close>)
  is equality of constructors.
\<close>

datatype error =
    ErrHelp
  | errParse
  | errRange
  | ErrSyntax
  | ErrRange
  | NumError string string error
  | ErrorsNew string

fun numError :: "error \<Rightarrow> error" where
  "numError (NumError fn num e) =
     (if e = ErrSyntax then errParse
      else if e = ErrRange then errRange
      else NumError fn num e)"
| "numError err = err"

section \<open>The standard library\<close>

text \<open>
  The package calls strconv, time and fmt. The functions on booleans and integers are
  modelled here after the Go standard library (they are not part of the repository);
  quoting (\<open>%q\<close>), floating point and durations are parameters, collected in the record
  \<open>stdlib\<close>. A float64 is its IEEE 754 bit pattern; a duration is its count of
  nanoseconds.
\<close>

type_synonym float64 = "64 word"

record stdlib =
  platform64 :: bool
  Quote :: "string \<Rightarrow> string"
  ParseFloat :: "string \<Rightarrow> float64 \<times> error option"
  FormatFloat :: "float64 \<Rightarrow> string"
  ParseDuration :: "string \<Rightarrow> int \<times> error option"
  DurationString :: "int \<Rightarrow> string"

definition IntSize :: "stdlib \<Rightarrow> nat" where
  "IntSize L = (if platform64 L then 64 else 32)"

definition syntaxError :: "string \<Rightarrow> string \<Rightarrow> error" where
  "syntaxError fn str = NumError fn str ErrSyntax"

definition rangeError :: "string \<Rightarrow> string \<Rightarrow> error" where
  "rangeError fn str = NumError fn str ErrRange"

subsection \<open>strconv.ParseBool and strconv.FormatBool\<close>

definition ParseBool :: "string \<Rightarrow> bool \<times> error option" where
  "ParseBool str =
     (if str = ''1'' \<or> str = ''t'' \<or> str = ''T'' \<or> str = ''TRUE'' \<or> str = ''true''
         \<or> str = ''True'' then (True, None)
      else if str = ''0'' \<or> str = ''f'' \<or> str = ''F'' \<or> str = ''FALSE'' \<or> str = ''false''
         \<or> str = ''False'' then (False, None)
      else (False, Some (syntaxError ''ParseBool'' str)))"

definition FormatBool :: "bool \<Rightarrow> string" where
  "FormatBool b = (if b then ''true'' else ''false'')"

subsection \<open>strconv.ParseUint and strconv.ParseInt with base 0\<close>

text \<open>Bytes are read as numbers; \<open>lower\<close> is \<open>c | ('x' - 'X')\<close>.\<close>

definition byte :: "char \<Rightarrow> nat" where
  "byte c = of_char c"

definition lower :: "nat \<Rightarrow> nat" where
  "lower c = c OR 32"

definition maxUint64 :: nat where
  "maxUint64 = 2 ^ 64 - 1"

fun underscoreOK_loop :: "bool \<Rightarrow> char \<Rightarrow> string \<Rightarrow> bool" where
  "underscoreOK_loop hex saw [] = (saw \<noteq> CHR ''_'')"
| "underscoreOK_loop hex saw (c # cs) =
     (if (48 \<le> byte c \<and> byte c \<le> 57) \<or> (hex \<and> 97 \<le> lower (byte c) \<and> lower (byte c) \<le> 102)
      then underscoreOK_loop hex (CHR ''0'') cs
      else if c = CHR ''_''
      then (if saw \<noteq> CHR ''0'' then False else underscoreOK_loop hex (CHR ''_'') cs)
      else if saw = CHR ''_'' then False
      else underscoreOK_loop hex (CHR ''!'') cs)"

definition underscoreOK :: "string \<Rightarrow> bool" where
  "underscoreOK s0 =
     (let s = (if length s0 \<ge> 1 \<and> (hd s0 = CHR ''-'' \<or> hd s0 = CHR ''+'') then tl s0 else s0)
      in if length s \<ge> 2 \<and> hd s = CHR ''0''
            \<and> (lower (byte (s ! 1)) = 98 \<or> lower (byte (s ! 1)) = 111 \<or> lower (byte (s ! 1)) = 120)
         then underscoreOK_loop (lower (byte (s ! 1)) = 120) (CHR ''0'') (drop 2 s)
         else underscoreOK_loop False (CHR ''^'') s)"

text \<open>
  The digit loop of ParseUint: \<open>n\<close> is the number read so far, \<open>us\<close> whether an
  underscore was seen. The arithmetic is that of uint64, the wrap-around written out.
\<close>

datatype digits = Digits nat bool | BadSyntax | OutOfRange

fun digit_loop :: "nat \<Rightarrow> nat \<Rightarrow> nat \<Rightarrow> bool \<Rightarrow> string \<Rightarrow> digits" where
  "digit_loop base maxVal n us [] = Digits n us"
| "digit_loop base maxVal n us (c # cs) =
     (if c = CHR ''_'' then digit_loop base maxVal n True cs
      else if \<not> ((48 \<le> byte c \<and> byte c \<le> 57) \<or> (97 \<le> lower (byte c) \<and> lower (byte c) \<le> 122))
      then BadSyntax
      else
        (let d = (if 48 \<le> byte c \<and> byte c \<le> 57 then byte c - 48 else lower (byte c) - 97 + 10)
         in if d \<ge> base then BadSyntax
            else if n \<ge> maxUint64 div base + 1 then OutOfRange
            else
              (let n0 = (n * base) mod 2 ^ 64;
                   n1 = (n0 + d) mod 2 ^ 64
               in if n1 < n0 \<or> n1 > maxVal then OutOfRange
                  else digit_loop base maxVal n1 us cs)))"

definition ParseUint :: "string \<Rightarrow> nat \<Rightarrow> nat \<times> error option" where
  "ParseUint s0 bitSize =
     (if s0 = [] then (0, Some (syntaxError ''ParseUint'' s0))
      else
        (let (base, s) =
               (if hd s0 = CHR ''0'' then
                  (if length s0 \<ge> 3 \<and> lower (byte (s0 ! 1)) = 98 then (2, drop 2 s0)
                   else if length s0 \<ge> 3 \<and> lower (byte (s0 ! 1)) = 111 then (8, drop 2 s0)
                   else if length s0 \<ge> 3 \<and> lower (byte (s0 ! 1)) = 120 then (16, drop 2 s0)
                   else (8, drop 1 s0))
                else (10, s0));
             maxVal = 2 ^ bitSize - 1
         in case digit_loop base maxVal 0 False s of
              BadSyntax \<Rightarrow> (0, Some (syntaxError ''ParseUint'' s0))
            | OutOfRange \<Rightarrow> (maxVal, Some (rangeError ''ParseUint'' s0))
            | Digits n us \<Rightarrow>
                if us \<and> \<not> underscoreOK s0 then (0, Some (syntaxError ''ParseUint'' s0))
                else (n, None)))"

text \<open>\<open>int64(un)\<close> and the negation of an int64, in two's complement.\<close>

definition int64 :: "int \<Rightarrow> int" where
  "int64 x = (x + 2 ^ 63) mod 2 ^ 64 - 2 ^ 63"

definition ParseInt :: "string \<Rightarrow> nat \<Rightarrow> int \<times> error option" where
  "ParseInt s0 bitSize =
     (if s0 = [] then (0, Some (syntaxError ''ParseInt'' s0))
      else
        (let neg = (hd s0 = CHR ''-'');
             s = (if hd s0 = CHR ''+'' \<or> hd s0 = CHR ''-'' then tl s0 else s0);
             (un, err) = ParseUint s bitSize;
             cutoff = 2 ^ (bitSize - 1);
             checked =
               (if \<not> neg \<and> un \<ge> cutoff then (int cutoff - 1, Some (rangeError ''ParseInt'' s0))
                else if neg \<and> un > cutoff then (- int cutoff, Some (rangeError ''ParseInt'' s0))
                else (if neg then int64 (- int64 (int un)) else int64 (int un), None))
         in case err of
              Some (NumError fn num e) \<Rightarrow>
                if e \<noteq> ErrRange then (0, Some (NumError ''ParseInt'' s0 e)) else checked
            | _ \<Rightarrow> checked))"

subsection \<open>strconv.FormatUint, strconv.FormatInt and strconv.Itoa in base 10\<close>

fun FormatUint :: "nat \<Rightarrow> string" where
  "FormatUint n =
     (if n < 10 then [char_of (48 + n)]
      else FormatUint (n div 10) @ [char_of (48 + n mod 10)])"

definition FormatInt :: "int \<Rightarrow> string" where
  "FormatInt i = (if i < 0 then CHR ''-'' # FormatUint (nat (- i)) else FormatUint (nat i))"

definition Itoa :: "int \<Rightarrow> string" where
  "Itoa i = FormatInt i"

declare FormatUint.simps [simp del]

subsection \<open>strings.Cut, strings.Compare and strings.ReplaceAll\<close>

text \<open>\<open>Cut s\<close> is \<open>strings.Cut(s, "=")\<close> without its third result.\<close>

definition Cut :: "string \<Rightarrow> string \<times> string" where
  "Cut s = (takeWhile (\<lambda>c. c \<noteq> CHR ''='') s, drop 1 (dropWhile (\<lambda>c. c \<noteq> CHR ''='') s))"

fun Compare :: "string \<Rightarrow> string \<Rightarrow> int" where
  "Compare [] [] = 0"
| "Compare [] (b # bs) = - 1"
| "Compare (a # as) [] = 1"
| "Compare (a # as) (b # bs) =
     (if byte a < byte b then - 1 else if byte b < byte a then 1 else Compare as bs)"

text \<open>\<open>ReplaceAll_newline s\<close> is \<open>strings.ReplaceAll(s, "\n", "\n    \t")\<close>.\<close>

definition ReplaceAll_newline :: "string \<Rightarrow> string" where
  "ReplaceAll_newline s =
     concat (map (\<lambda>c. if c = CHR 0x0A then [CHR 0x0A] @ ''    '' @ [CHR 0x09] else [c]) s)"

section \<open>The memory of the caller and the output sink\<close>

text \<open>
  Every built-in Value is a pointer to a variable of the caller. The memory has one
  region for each pointee type, so a pointer is an address in the region of its type.
  \<open>sink\<close> is the text written so far to \<open>e.Output()\<close>. Callbacks of the caller
  (\<open>Func\<close>, \<open>BoolFunc\<close>, \<open>UnmarshalText\<close>, a custom Value, a custom \<open>Usage\<close>) are functions
  on this state; they do not call back into the EnvSet.
\<close>

type_synonym addr = nat

record world =
  mem_bool :: "addr \<Rightarrow> bool"
  mem_int :: "addr \<Rightarrow> int"
  mem_int64 :: "addr \<Rightarrow> int"
  mem_uint :: "addr \<Rightarrow> nat"
  mem_uint64 :: "addr \<Rightarrow> nat"
  mem_string :: "addr \<Rightarrow> string"
  mem_float64 :: "addr \<Rightarrow> float64"
  mem_duration :: "addr \<Rightarrow> int"
  sink :: string

definition zero_world :: world where
  "zero_world =
     \<lparr>mem_bool = (\<lambda>_. False), mem_int = (\<lambda>_. 0), mem_int64 = (\<lambda>_. 0), mem_uint = (\<lambda>_. 0),
      mem_uint64 = (\<lambda>_. 0), mem_string = (\<lambda>_. []), mem_float64 = (\<lambda>_. 0),
      mem_duration = (\<lambda>_. 0), sink = []\<rparr>"

type_synonym callback = "string \<Rightarrow> world \<Rightarrow> error option \<times> world"

section \<open>The Value variants\<close>

text \<open>
  The target of a textValue: its \<open>UnmarshalText\<close>, and its \<open>MarshalText\<close> when the type
  has one. A custom Value is any other implementation of the interface handed to \<open>Var\<close>:
  its methods, the name of its type, and what \<open>String\<close> does on the zero value of the
  type (\<open>Inl\<close> the value it panics with, \<open>Inr\<close> the text).
\<close>

record text_target =
  UnmarshalText :: callback
  MarshalText :: "(world \<Rightarrow> string \<times> error option) option"

record custom =
  custom_type :: string
  custom_Set :: callback
  custom_String :: "world \<Rightarrow> string"
  custom_zero_String :: "string + string"

datatype Value =
    boolValue addr
  | intValue addr
  | int64Value addr
  | uintValue addr
  | uint64Value addr
  | stringValue addr
  | float64Value addr
  | durationValue addr
  | textValue text_target
  | funcValue callback
  | boolFuncValue callback
  | customValue custom

datatype any =
    AnyBool bool
  | AnyInt int
  | AnyInt64 int
  | AnyUint nat
  | AnyUint64 nat
  | AnyString string
  | AnyFloat64 float64
  | AnyDuration int
  | AnyPointer
  | AnyNil

subsection \<open>Constructors\<close>

definition newBoolValue :: "bool \<Rightarrow> addr \<Rightarrow> world \<Rightarrow> Value \<times> world" where
  "newBoolValue val p w = (boolValue p, w\<lparr>mem_bool := (mem_bool w)(p := val)\<rparr>)"

definition newIntValue :: "int \<Rightarrow> addr \<Rightarrow> world \<Rightarrow> Value \<times> world" where
  "newIntValue val p w = (intValue p, w\<lparr>mem_int := (mem_int w)(p := val)\<rparr>)"

definition newInt64Value :: "int \<Rightarrow> addr \<Rightarrow> world \<Rightarrow> Value \<times> world" where
  "newInt64Value val p w = (int64Value p, w\<lparr>mem_int64 := (mem_int64 w)(p := val)\<rparr>)"

definition newUintValue :: "nat \<Rightarrow> addr \<Rightarrow> world \<Rightarrow> Value \<times> world" where
  "newUintValue val p w = (uintValue p, w\<lparr>mem_uint := (mem_uint w)(p := val)\<rparr>)"

definition newUint64Value :: "nat \<Rightarrow> addr \<Rightarrow> world \<Rightarrow> Value \<times> world" where
  "newUint64Value val p w = (uint64Value p, w\<lparr>mem_uint64 := (mem_uint64 w)(p := val)\<rparr>)"

definition newStringValue :: "string \<Rightarrow> addr \<Rightarrow> world \<Rightarrow> Value \<times> world" where
  "newStringValue val p w = (stringValue p, w\<lparr>mem_string := (mem_string w)(p := val)\<rparr>)"

definition newFloat64Value :: "float64 \<Rightarrow> addr \<Rightarrow> world \<Rightarrow> Value \<times> world" where
  "newFloat64Value val p w = (float64Value p, w\<lparr>mem_float64 := (mem_float64 w)(p := val)\<rparr>)"

definition newDurationValue :: "int \<Rightarrow> addr \<Rightarrow> world \<Rightarrow> Value \<times> world" where
  "newDurationValue val p w = (durationValue p, w\<lparr>mem_duration := (mem_duration w)(p := val)\<rparr>)"

subsection \<open>Set\<close>

definition boolValue_Set :: "addr \<Rightarrow> callback" where
  "boolValue_Set b s w =
     (let (v, err) = ParseBool s;
          err = (if err \<noteq> None then Some errParse else err)
      in (err, w\<lparr>mem_bool := (mem_bool w)(b := v)\<rparr>))"

definition intValue_Set :: "stdlib \<Rightarrow> addr \<Rightarrow> callback" where
  "intValue_Set L b s w =
     (let (v, err) = ParseInt s (IntSize L);
          err = (case err of Some e \<Rightarrow> Some (numError e) | None \<Rightarrow> None)
      in (err, w\<lparr>mem_int := (mem_int w)(b := v)\<rparr>))"

definition int64Value_Set :: "addr \<Rightarrow> callback" where
  "int64Value_Set i s w =
     (let (v, err) = ParseInt s 64;
          err = (case err of Some e \<Rightarrow> Some (numError e) | None \<Rightarrow> None)
      in (err, w\<lparr>mem_int64 := (mem_int64 w)(i := v)\<rparr>))"

definition uintValue_Set :: "stdlib \<Rightarrow> addr \<Rightarrow> callback" where
  "uintValue_Set L u s w =
     (let (v, err) = ParseUint s (IntSize L);
          err = (case err of Some e \<Rightarrow> Some (numError e) | None \<Rightarrow> None)
      in (err, w\<lparr>mem_uint := (mem_uint w)(u := v)\<rparr>))"

definition uint64Value_Set :: "addr \<Rightarrow> callback" where
  "uint64Value_Set u s w =
     (let (v, err) = ParseUint s 64;
          err = (case err of Some e \<Rightarrow> Some (numError e) | None \<Rightarrow> None)
      in (err, w\<lparr>mem_uint64 := (mem_uint64 w)(u := v)\<rparr>))"

definition stringValue_Set :: "addr \<Rightarrow> callback" where
  "stringValue_Set s val w = (None, w\<lparr>mem_string := (mem_string w)(s := val)\<rparr>)"

definition float64Value_Set :: "stdlib \<Rightarrow> addr \<Rightarrow> callback" where
  "float64Value_Set L f s w =
     (let (v, err) = ParseFloat L s
      in case err of
           Some e \<Rightarrow> (Some (numError e), w)
         | None \<Rightarrow> (None, w\<lparr>mem_float64 := (mem_float64 w)(f := v)\<rparr>))"

definition durationValue_Set :: "stdlib \<Rightarrow> addr \<Rightarrow> callback" where
  "durationValue_Set L d s w =
     (let (v, err) = ParseDuration L s
      in case err of
           Some e \<Rightarrow> (Some errParse, w)
         | None \<Rightarrow> (None, w\<lparr>mem_duration := (mem_duration w)(d := v)\<rparr>))"

definition textValue_Set :: "text_target \<Rightarrow> callback" where
  "textValue_Set p s w = UnmarshalText p s w"

definition funcValue_Set :: "callback \<Rightarrow> callback" where
  "funcValue_Set f s w = f s w"

definition boolFuncValue_Set :: "callback \<Rightarrow> callback" where
  "boolFuncValue_Set f s w = f s w"

fun Value_Set :: "stdlib \<Rightarrow> Value \<Rightarrow> callback" where
  "Value_Set L (boolValue b) = boolValue_Set b"
| "Value_Set L (intValue b) = intValue_Set L b"
| "Value_Set L (int64Value i) = int64Value_Set i"
| "Value_Set L (uintValue u) = uintValue_Set L u"
| "Value_Set L (uint64Value u) = uint64Value_Set u"
| "Value_Set L (stringValue s) = stringValue_Set s"
| "Value_Set L (float64Value f) = float64Value_Set L f"
| "Value_Set L (durationValue d) = durationValue_Set L d"
| "Value_Set L (textValue p) = textValue_Set p"
| "Value_Set L (funcValue f) = funcValue_Set f"
| "Value_Set L (boolFuncValue f) = boolFuncValue_Set f"
| "Value_Set L (customValue c) = custom_Set c"

subsection \<open>String, Get and the marker IsBoolVar\<close>

definition boolValue_String :: "addr \<Rightarrow> world \<Rightarrow> string" where
  "boolValue_String b w = FormatBool (mem_bool w b)"

definition intValue_String :: "addr \<Rightarrow> world \<Rightarrow> string" where
  "intValue_String b w = Itoa (mem_int w b)"

definition int64Value_String :: "addr \<Rightarrow> world \<Rightarrow> string" where
  "int64Value_String i w = FormatInt (mem_int64 w i)"

definition uintValue_String :: "addr \<Rightarrow> world \<Rightarrow> string" where
  "uintValue_String u w = FormatUint (mem_uint w u)"

definition uint64Value_String :: "addr \<Rightarrow> world \<Rightarrow> string" where
  "uint64Value_String u w = FormatUint (mem_uint64 w u)"

definition stringValue_String :: "addr \<Rightarrow> world \<Rightarrow> string" where
  "stringValue_String s w = mem_string w s"

definition float64Value_String :: "stdlib \<Rightarrow> addr \<Rightarrow> world \<Rightarrow> string" where
  "float64Value_String L s w = FormatFloat L (mem_float64 w s)"

definition durationValue_String :: "stdlib \<Rightarrow> addr \<Rightarrow> world \<Rightarrow> string" where
  "durationValue_String L d w = DurationString L (mem_duration w d)"

text \<open>The field \<open>p\<close> of a textValue is \<open>None\<close> in the zero value of the struct.\<close>

definition textValue_String :: "text_target option \<Rightarrow> world \<Rightarrow> string" where
  "textValue_String p w =
     (case p of
        None \<Rightarrow> []
      | Some t \<Rightarrow>
          (case MarshalText t of
             None \<Rightarrow> []
           | Some m \<Rightarrow> (case m w of (b, None) \<Rightarrow> b | (b, Some err) \<Rightarrow> [])))"

definition funcValue_String :: string where
  "funcValue_String = []"

definition boolFuncValue_String :: string where
  "boolFuncValue_String = []"

fun Value_String :: "stdlib \<Rightarrow> Value \<Rightarrow> world \<Rightarrow> string" where
  "Value_String L (boolValue b) w = boolValue_String b w"
| "Value_String L (intValue b) w = intValue_String b w"
| "Value_String L (int64Value i) w = int64Value_String i w"
| "Value_String L (uintValue u) w = uintValue_String u w"
| "Value_String L (uint64Value u) w = uint64Value_String u w"
| "Value_String L (stringValue s) w = stringValue_String s w"
| "Value_String L (float64Value f) w = float64Value_String L f w"
| "Value_String L (durationValue d) w = durationValue_String L d w"
| "Value_String L (textValue p) w = textValue_String (Some p) w"
| "Value_String L (funcValue f) w = funcValue_String"
| "Value_String L (boolFuncValue f) w = boolFuncValue_String"
| "Value_String L (customValue c) w = custom_String c w"

fun Value_Get :: "Value \<Rightarrow> world \<Rightarrow> any" where
  "Value_Get (boolValue b) w = AnyBool (mem_bool w b)"
| "Value_Get (intValue b) w = AnyInt (mem_int w b)"
| "Value_Get (int64Value i) w = AnyInt64 (mem_int64 w i)"
| "Value_Get (uintValue u) w = AnyUint (mem_uint w u)"
| "Value_Get (uint64Value u) w = AnyUint64 (mem_uint64 w u)"
| "Value_Get (stringValue s) w = AnyString (mem_string w s)"
| "Value_Get (float64Value f) w = AnyFloat64 (mem_float64 w f)"
| "Value_Get (durationValue d) w = AnyDuration (mem_duration w d)"
| "Value_Get (textValue p) w = AnyPointer"
| "Value_Get (funcValue f) w = AnyNil"
| "Value_Get (boolFuncValue f) w = AnyNil"
| "Value_Get (customValue c) w = AnyNil"

text \<open>
  \<open>IsBoolVar v\<close> is \<open>Some b\<close> when the type of \<open>v\<close> has the method \<open>IsBoolVar\<close> (the
  interface \<open>boolVar\<close>) and the method returns \<open>b\<close>. Only \<open>*boolValue\<close> declares it.
\<close>

fun IsBoolVar :: "Value \<Rightarrow> bool option" where
  "IsBoolVar (boolValue b) = Some True"
| "IsBoolVar v = None"

section \<open>Spec and EnvSet\<close>

record Spec =
  Name :: string
  Description :: string
  Value :: Value
  DefValue :: string

type_synonym ErrorHandling = int

definition ContinueOnError :: ErrorHandling where
  "ContinueOnError = 0"

definition ExitOnError :: ErrorHandling where
  "ExitOnError = 1"

definition PanicOnError :: ErrorHandling where
  "PanicOnError = 2"

text \<open>
  The maps \<open>actual\<close>, \<open>formal\<close> and \<open>undef\<close> are association lists read with \<open>map_of\<close>
  and written with \<open>AList.update\<close>; a nil map is the empty list. The field \<open>output\<close> is
  the \<open>sink\<close> of the world.
\<close>

record EnvSet =
  Usage :: "(world \<Rightarrow> world) option"
  name :: string
  parsed :: bool
  actual :: "(string \<times> Spec) list"
  formal :: "(string \<times> Spec) list"
  environment :: "string list"
  errorHandling :: ErrorHandling
  undef :: "(string \<times> string) list"

definition NewEnvSet :: "string \<Rightarrow> ErrorHandling \<Rightarrow> EnvSet" where
  "NewEnvSet nm eh =
     \<lparr>Usage = None, name = nm, parsed = False, actual = [], formal = [], environment = [],
      errorHandling = eh, undef = []\<rparr>"

definition Init :: "EnvSet \<Rightarrow> string \<Rightarrow> ErrorHandling \<Rightarrow> EnvSet" where
  "Init e nm eh = e\<lparr>name := nm, errorHandling := eh\<rparr>"

text \<open>How a process can leave a call: it returns, it exits with a status, or it panics.\<close>

datatype panic = PanicString string | PanicError error

datatype 'a outcome = Returns 'a | Exits int | Panics panic

subsection \<open>sortVariables, VisitAll and Visit\<close>

text \<open>
  \<open>slices.SortFunc\<close> with \<open>strings.Compare\<close> on the names; the names of a map are
  distinct, so the sorted slice does not depend on the sorting algorithm.
\<close>

fun insert_sorted :: "Spec \<Rightarrow> Spec list \<Rightarrow> Spec list" where
  "insert_sorted s [] = [s]"
| "insert_sorted s (t # ts) =
     (if Compare (Name s) (Name t) \<le> 0 then s # t # ts else t # insert_sorted s ts)"

definition sortVariables :: "(string \<times> Spec) list \<Rightarrow> Spec list" where
  "sortVariables vars = foldr insert_sorted (map snd vars) []"

definition VisitAll :: "EnvSet \<Rightarrow> Spec list" where
  "VisitAll e = sortVariables (formal e)"

definition Visit :: "EnvSet \<Rightarrow> Spec list" where
  "Visit e = sortVariables (actual e)"

section \<open>The usage listing\<close>

fun Error :: "stdlib \<Rightarrow> error \<Rightarrow> string" where
  "Error L ErrHelp = ''env: help requested''"
| "Error L errParse = ''parse error''"
| "Error L errRange = ''value out of range''"
| "Error L ErrSyntax = ''invalid syntax''"
| "Error L ErrRange = ''value out of range''"
| "Error L (NumError fn num e) = ''strconv.'' @ fn @ '': parsing '' @ Quote L num @ '': '' @ Error L e"
| "Error L (ErrorsNew msg) = msg"

text \<open>
  \<open>zero_String\<close> is \<open>z.Interface().(Value).String()\<close> of isZeroValue: for a pointer type
  \<open>z\<close> points to a new zero variable, otherwise \<open>z\<close> is the zero value of the type.
  \<open>reflect_type\<close> is the type as \<open>%v\<close> prints it.
\<close>

fun zero_String :: "stdlib \<Rightarrow> Value \<Rightarrow> string + string" where
  "zero_String L (boolValue b) = Inr (boolValue_String 0 zero_world)"
| "zero_String L (intValue b) = Inr (intValue_String 0 zero_world)"
| "zero_String L (int64Value i) = Inr (int64Value_String 0 zero_world)"
| "zero_String L (uintValue u) = Inr (uintValue_String 0 zero_world)"
| "zero_String L (uint64Value u) = Inr (uint64Value_String 0 zero_world)"
| "zero_String L (stringValue s) = Inr (stringValue_String 0 zero_world)"
| "zero_String L (float64Value f) = Inr (float64Value_String L 0 zero_world)"
| "zero_String L (durationValue d) = Inr (durationValue_String L 0 zero_world)"
| "zero_String L (textValue p) = Inr (textValue_String None zero_world)"
| "zero_String L (funcValue f) = Inr funcValue_String"
| "zero_String L (boolFuncValue f) = Inr boolFuncValue_String"
| "zero_String L (customValue c) = custom_zero_String c"

fun reflect_type :: "Value \<Rightarrow> string" where
  "reflect_type (boolValue b) = ''env.boolValue''"
| "reflect_type (intValue b) = ''env.intValue''"
| "reflect_type (int64Value i) = ''env.int64Value''"
| "reflect_type (uintValue u) = ''env.uintValue''"
| "reflect_type (uint64Value u) = ''env.uint64Value''"
| "reflect_type (stringValue s) = ''env.stringValue''"
| "reflect_type (float64Value f) = ''env.float64Value''"
| "reflect_type (durationValue d) = ''env.durationValue''"
| "reflect_type (textValue p) = ''env.textValue''"
| "reflect_type (funcValue f) = ''env.funcValue''"
| "reflect_type (boolFuncValue f) = ''env.boolFuncValue''"
| "reflect_type (customValue c) = custom_type c"

definition isZeroValue :: "stdlib \<Rightarrow> Spec \<Rightarrow> string \<Rightarrow> bool \<times> error option" where
  "isZeroValue L spec val =
     (case zero_String L (Value spec) of
        Inr z \<Rightarrow> (val = z, None)
      | Inl e \<Rightarrow>
          (False,
           Some (ErrorsNew (''panic calling String method on zero '' @ reflect_type (Value spec)
                   @ '' for variable '' @ Name spec @ '': '' @ e))))"

text \<open>The back quote is the byte 0x60.\<close>

definition backquote :: char where
  "backquote = CHR 0x60"

definition type_name :: "Value \<Rightarrow> string" where
  "type_name v =
     (case v of
        boolValue b \<Rightarrow> ''boolean''
      | durationValue d \<Rightarrow> ''duration''
      | float64Value f \<Rightarrow> ''float''
      | intValue b \<Rightarrow> ''int''
      | int64Value i \<Rightarrow> ''int''
      | stringValue s \<Rightarrow> ''string''
      | uintValue u \<Rightarrow> ''uint''
      | uint64Value u \<Rightarrow> ''uint''
      | _ \<Rightarrow> ''value'')"

definition UnquoteUsage :: "Spec \<Rightarrow> string \<times> string" where
  "UnquoteUsage spec =
     (let description = Description spec;
          before = takeWhile (\<lambda>c. c \<noteq> backquote) description;
          from_i = dropWhile (\<lambda>c. c \<noteq> backquote) description;
          nm = takeWhile (\<lambda>c. c \<noteq> backquote) (drop 1 from_i);
          from_j = dropWhile (\<lambda>c. c \<noteq> backquote) (drop 1 from_i)
      in if from_i \<noteq> [] \<and> from_j \<noteq> [] then (nm, before @ nm @ drop 1 from_j)
         else (type_name (Value spec), description))"

text \<open>
  The function that PrintDefaults hands to VisitAll: the text it prints for one Spec
  (without the final newline), and the error of isZeroValue if there is one.
\<close>

definition default_text :: "stdlib \<Rightarrow> Spec \<Rightarrow> string" where
  "default_text L spec =
     (case Value spec of
        stringValue s \<Rightarrow> '' (default '' @ Quote L (DefValue spec) @ '')''
      | _ \<Rightarrow> '' (default '' @ DefValue spec @ '')'')"

definition PrintDefaults_visit :: "stdlib \<Rightarrow> Spec \<Rightarrow> string \<times> error option" where
  "PrintDefaults_visit L spec =
     (let (nm, usage) = UnquoteUsage spec;
          b = ''  '' @ Name spec @ (if length nm > 0 then ''  '' @ nm else [])
                @ [CHR 0x0A] @ ''    '' @ [CHR 0x09] @ ReplaceAll_newline usage;
          (isZero, err) = isZeroValue L spec (DefValue spec)
      in if err \<noteq> None then (b, err)
         else if \<not> isZero then (b @ default_text L spec, None)
         else (b, None))"

definition PrintDefaults :: "stdlib \<Rightarrow> EnvSet \<Rightarrow> world \<Rightarrow> world" where
  "PrintDefaults L e w =
     (let visits = map (PrintDefaults_visit L) (VisitAll e);
          w1 = w\<lparr>sink := sink w @ concat (map (\<lambda>v. fst v @ [CHR 0x0A]) visits)\<rparr>;
          errs = List.map_filter snd visits
      in if length errs > 0
         then w1\<lparr>sink := sink w1 @ [CHR 0x0A] @ concat (map (\<lambda>err. Error L err @ [CHR 0x0A]) errs)\<rparr>
         else w1)"

definition defaultEnvironment :: "stdlib \<Rightarrow> EnvSet \<Rightarrow> world \<Rightarrow> world" where
  "defaultEnvironment L e w =
     (if name e = [] then PrintDefaults L e (w\<lparr>sink := sink w @ ''Environment:'' @ [CHR 0x0A]\<rparr>)
      else PrintDefaults L e
             (w\<lparr>sink := sink w @ ''Environment of '' @ name e @ '':'' @ [CHR 0x0A]\<rparr>))"

definition usage :: "stdlib \<Rightarrow> EnvSet \<Rightarrow> world \<Rightarrow> world" where
  "usage L e w = (case Usage e of None \<Rightarrow> defaultEnvironment L e w | Some f \<Rightarrow> f w)"

text \<open>\<open>sprintf\<close> and \<open>failf\<close> take the message that \<open>fmt.Sprintf\<close> has made.\<close>

definition sprintf :: "string \<Rightarrow> world \<Rightarrow> string \<times> world" where
  "sprintf msg w = (msg, w\<lparr>sink := sink w @ msg @ [CHR 0x0A]\<rparr>)"

definition failf :: "stdlib \<Rightarrow> EnvSet \<Rightarrow> string \<Rightarrow> world \<Rightarrow> error \<times> world" where
  "failf L e formatted w =
     (let (msg, w1) = sprintf formatted w
      in (ErrorsNew msg, usage L e w1))"

section \<open>Declaring variables\<close>

definition Var :: "stdlib \<Rightarrow> EnvSet \<Rightarrow> Value \<Rightarrow> string \<Rightarrow> string \<Rightarrow> world
    \<Rightarrow> unit outcome \<times> EnvSet \<times> world" where
  "Var L e val nm description w =
     (if CHR ''='' \<in> set nm then
        (let (msg, w1) = sprintf (''variable '' @ Quote L nm @ '' contains ='') w
         in (Panics (PanicString msg), e, w1))
      else
        (let v = \<lparr>Name = nm, Description = description, Value = val,
                  DefValue = Value_String L val w\<rparr>
         in if map_of (formal e) nm \<noteq> None then
              (let (msg, w1) =
                     (if name e = [] then sprintf (''variable redefined: '' @ nm) w
                      else sprintf (name e @ '' variable redefined: '' @ nm) w)
               in (Panics (PanicString msg), e, w1))
            else
              (let pos = (case map_of (undef e) nm of None \<Rightarrow> [] | Some p \<Rightarrow> p)
               in if pos \<noteq> [] then
                    (Panics (PanicString (''variable '' @ nm @ '' set at '' @ pos
                               @ '' before being defined'')), e, w)
                  else (Returns (), e\<lparr>formal := AList.update nm v (formal e)\<rparr>, w))))"

definition BoolVar :: "stdlib \<Rightarrow> EnvSet \<Rightarrow> addr \<Rightarrow> string \<Rightarrow> bool \<Rightarrow> string \<Rightarrow> world
    \<Rightarrow> unit outcome \<times> EnvSet \<times> world" where
  "BoolVar L e p nm val description w =
     (let (v, w1) = newBoolValue val p w in Var L e v nm description w1)"

definition IntVar :: "stdlib \<Rightarrow> EnvSet \<Rightarrow> addr \<Rightarrow> string \<Rightarrow> int \<Rightarrow> string \<Rightarrow> world
    \<Rightarrow> unit outcome \<times> EnvSet \<times> world" where
  "IntVar L e p nm val description w =
     (let (v, w1) = newIntValue val p w in Var L e v nm description w1)"

definition Int64Var :: "stdlib \<Rightarrow> EnvSet \<Rightarrow> addr \<Rightarrow> string \<Rightarrow> int \<Rightarrow> string \<Rightarrow> world
    \<Rightarrow> unit outcome \<times> EnvSet \<times> world" where
  "Int64Var L e p nm val description w =
     (let (v, w1) = newInt64Value val p w in Var L e v nm description w1)"

definition UintVar :: "stdlib \<Rightarrow> EnvSet \<Rightarrow> addr \<Rightarrow> string \<Rightarrow> nat \<Rightarrow> string \<Rightarrow> world
    \<Rightarrow> unit outcome \<times> EnvSet \<times> world" where
  "UintVar L e p nm val description w =
     (let (v, w1) = newUintValue val p w in Var L e v nm description w1)"

definition Uint64Var :: "stdlib \<Rightarrow> EnvSet \<Rightarrow> addr \<Rightarrow> string \<Rightarrow> nat \<Rightarrow> string \<Rightarrow> world
    \<Rightarrow> unit outcome \<times> EnvSet \<times> world" where
  "Uint64Var L e p nm val description w =
     (let (v, w1) = newUint64Value val p w in Var L e v nm description w1)"

definition StringVar :: "stdlib \<Rightarrow> EnvSet \<Rightarrow> addr \<Rightarrow> string \<Rightarrow> string \<Rightarrow> string \<Rightarrow> world
    \<Rightarrow> unit outcome \<times> EnvSet \<times> world" where
  "StringVar L e p nm val description w =
     (let (v, w1) = newStringValue val p w in Var L e v nm description w1)"

definition Float64Var :: "stdlib \<Rightarrow> EnvSet \<Rightarrow> addr \<Rightarrow> string \<Rightarrow> float64 \<Rightarrow> string \<Rightarrow> world
    \<Rightarrow> unit outcome \<times> EnvSet \<times> world" where
  "Float64Var L e p nm val description w =
     (let (v, w1) = newFloat64Value val p w in Var L e v nm description w1)"

definition DurationVar :: "stdlib \<Rightarrow> EnvSet \<Rightarrow> addr \<Rightarrow> string \<Rightarrow> int \<Rightarrow> string \<Rightarrow> world
    \<Rightarrow> unit outcome \<times> EnvSet \<times> world" where
  "DurationVar L e p nm val description w =
     (let (v, w1) = newDurationValue val p w in Var L e v nm description w1)"

text \<open>
  \<open>newTextValue\<close> inspects its two interface values with package reflect. \<open>rtype\<close> is the
  dynamic type of such a value: a named type (its name as \<open>%v\<close> prints it, and the name of
  its kind) or a pointer to a type. A named type that has methods is not of kind Ptr, and
  \<open>reflect.ValueOf\<close> never gives the kind Interface. An interface value is \<open>None\<close> when
  it is nil; otherwise it has a dynamic type, it is a nil pointer or not, it has the
  methods of the target, and \<open>store\<close> is what assigning the default to its pointee does
  to the memory of the caller. \<open>Elem\<close> on a value that is not a pointer and \<open>Set\<close> on
  the pointee of a nil pointer panic with a \<open>*reflect.ValueError\<close>.
\<close>

datatype rtype = Named string string | PtrTo rtype

fun rtype_String :: "rtype \<Rightarrow> string" where
  "rtype_String (Named n k) = n"
| "rtype_String (PtrTo t) = CHR ''*'' # rtype_String t"

record iface =
  dynamic_type :: rtype
  nil_pointer :: bool
  methods :: text_target
  store :: "world \<Rightarrow> world"

definition newTextValue :: "iface option \<Rightarrow> iface option \<Rightarrow> world \<Rightarrow> Value outcome \<times> world" where
  "newTextValue val p w =
     (case p of
        None \<Rightarrow> (Panics (PanicString ''variable value type must be a pointer''), w)
      | Some ptr \<Rightarrow>
          (case dynamic_type ptr of
             Named n k \<Rightarrow> (Panics (PanicString ''variable value type must be a pointer''), w)
           | PtrTo elem \<Rightarrow>
               (case val of
                  None \<Rightarrow>
                    (Panics (PanicError (ErrorsNew
                       ''reflect: call of reflect.Value.Elem on zero Value'')), w)
                | Some def \<Rightarrow>
                    (case dynamic_type def of
                       Named n k \<Rightarrow>
                         (Panics (PanicError (ErrorsNew
                            (''reflect: call of reflect.Value.Elem on '' @ k @ '' Value''))), w)
                     | PtrTo t \<Rightarrow>
                         if PtrTo t \<noteq> elem then
                           (Panics (PanicString
                              (''default type value does not match variable type: ''
                                @ rtype_String (PtrTo t) @ '' != '' @ rtype_String elem)), w)
                         else if nil_pointer ptr then
                           (Panics (PanicError (ErrorsNew
                              ''reflect: call of reflect.Value.Set on zero Value'')), w)
                         else (Returns (textValue (methods ptr)), store ptr w)))))"

definition TextVar :: "stdlib \<Rightarrow> EnvSet \<Rightarrow> iface option \<Rightarrow> string \<Rightarrow> iface option \<Rightarrow> string
    \<Rightarrow> world \<Rightarrow> unit outcome \<times> EnvSet \<times> world" where
  "TextVar L e p nm val description w =
     (case newTextValue val p w of
        (Returns v, w1) \<Rightarrow> Var L e v nm description w1
      | (Exits n, w1) \<Rightarrow> (Exits n, e, w1)
      | (Panics x, w1) \<Rightarrow> (Panics x, e, w1))"

definition Func :: "stdlib \<Rightarrow> EnvSet \<Rightarrow> string \<Rightarrow> string \<Rightarrow> callback \<Rightarrow> world
    \<Rightarrow> unit outcome \<times> EnvSet \<times> world" where
  "Func L e nm description fn w = Var L e (funcValue fn) nm description w"

definition BoolFunc :: "stdlib \<Rightarrow> EnvSet \<Rightarrow> string \<Rightarrow> string \<Rightarrow> callback \<Rightarrow> world
    \<Rightarrow> unit outcome \<times> EnvSet \<times> world" where
  "BoolFunc L e nm description fn w = Var L e (boolFuncValue fn) nm description w"

section \<open>Parsing\<close>

text \<open>
  \<open>parseOne\<close> returns its two results, the EnvSet and the world. The message of a
  failed Set is \<open>fmt.Sprintf("invalid value %q for variable %s: %v", value, name, err)\<close>.
\<close>

definition invalid_value :: "stdlib \<Rightarrow> string \<Rightarrow> string \<Rightarrow> error \<Rightarrow> string" where
  "invalid_value L val nm err =
     ''invalid value '' @ Quote L val @ '' for variable '' @ nm @ '': '' @ Error L err"

definition parseOne :: "stdlib \<Rightarrow> EnvSet \<Rightarrow> world \<Rightarrow> (error option \<times> bool) \<times> EnvSet \<times> world" where
  "parseOne L e w =
     (case environment e of
        [] \<Rightarrow> ((None, True), e, w)
      | s # rest \<Rightarrow>
          (let e1 = e\<lparr>environment := rest\<rparr>;
               (nm, val) = Cut s
           in if nm = ''HELP'' \<or> nm = ''H'' then ((Some ErrHelp, False), e1, usage L e1 w)
              else
                (case map_of (formal e1) nm of
                   None \<Rightarrow> ((None, False), e1, w)
                 | Some spec \<Rightarrow>
                     (case Value_Set L (Value spec) val w of
                        (Some err, w1) \<Rightarrow>
                          (let (err2, w2) = failf L e1 (invalid_value L val nm err) w1
                           in ((Some err2, False), e1, w2))
                      | (None, w1) \<Rightarrow>
                          ((None, False), e1\<lparr>actual := AList.update nm spec (actual e1)\<rparr>, w1)))))"

function Parse_loop :: "stdlib \<Rightarrow> EnvSet \<Rightarrow> world \<Rightarrow> error option outcome \<times> EnvSet \<times> world" where
  "Parse_loop L e w =
     (case parseOne L e w of
        ((err, done), e1, w1) \<Rightarrow>
          if done then (Returns None, e1, w1)
          else
            (case err of
               None \<Rightarrow> Parse_loop L e1 w1
             | Some er \<Rightarrow>
                 if errorHandling e1 = ContinueOnError then (Returns (Some er), e1, w1)
                 else if errorHandling e1 = ExitOnError then
                   (if er = ErrHelp then (Exits 0, e1, w1) else (Exits 2, e1, w1))
                 else if errorHandling e1 = PanicOnError then (Panics (PanicError er), e1, w1)
                 else Parse_loop L e1 w1))"
  by pat_completeness auto
termination
  by (relation "measure (\<lambda>(L, e, w). length (environment e))")
    (auto simp: parseOne_def Let_def failf_def
      split: list.splits prod.splits option.splits if_splits)

declare Parse_loop.simps [simp del]

definition Parse :: "stdlib \<Rightarrow> EnvSet \<Rightarrow> string list \<Rightarrow> world
    \<Rightarrow> error option outcome \<times> EnvSet \<times> world" where
  "Parse L e env w = Parse_loop L (e\<lparr>parsed := True, environment := env\<rparr>) w"

section \<open>Sample data\<close>

text \<open>
  A standard library for the examples. It agrees with Go on the arguments the examples
  use: \<open>Quote\<close> on printable ASCII text without quotes and backslashes, the float
  \<open>1.5\<close>, and the durations \<open>0s\<close> and \<open>1h30m0s\<close>.
\<close>

definition sample_stdlib :: stdlib where
  "sample_stdlib =
     \<lparr>platform64 = True,
      Quote = (\<lambda>s. [CHR 0x22] @ s @ [CHR 0x22]),
      ParseFloat = (\<lambda>s. if s = ''1.5'' then (0x3FF8000000000000, None)
                         else (0, Some (syntaxError ''ParseFloat'' s))),
      FormatFloat = (\<lambda>x. if x = 0x3FF8000000000000 then ''1.5'' else ''0''),
      ParseDuration = (\<lambda>s. if s = ''1h30m0s'' then (5400000000000, None)
                            else if s = ''0s'' then (0, None)
                            else (0, Some (ErrorsNew ''time: invalid duration''))),
      DurationString = (\<lambda>d. if d = 5400000000000 then ''1h30m0s'' else ''0s'')\<rparr>"

text \<open>
  A callback for \<open>Func\<close> and \<open>BoolFunc\<close> that records every call in the string variable
  at address 9 of the caller and accepts every text but the empty one.
\<close>

definition record_call :: callback where
  "record_call s w =
     (if s = [] then Some (ErrorsNew ''empty'') else None,
      w\<lparr>mem_string := (mem_string w)(9 := mem_string w 9 @ ''<'' @ s @ ''>'')\<rparr>)"

text \<open>
  An EnvSet named \<open>app\<close> with five variables, as the calls \<open>IntVar(p0, "PORT", 0, ...)\<close>,
  \<open>BoolVar(p0, "DEBUG", false, ...)\<close>, \<open>StringVar(p0, "HOST", "", ...)\<close>,
  \<open>Func("LOG", ..., record_call)\<close> and \<open>Uint64Var(p0, "COUNT", 0, ...)\<close> leave it.
\<close>

definition sample_formal :: "(string \<times> Spec) list" where
  "sample_formal =
     [(''PORT'', \<lparr>Name = ''PORT'', Description = ''port to listen on'', Value = intValue 0,
                 DefValue = ''0''\<rparr>),
      (''DEBUG'', \<lparr>Name = ''DEBUG'', Description = ''verbose output'', Value = boolValue 0,
                  DefValue = ''false''\<rparr>),
      (''HOST'', \<lparr>Name = ''HOST'', Description = ''name of the host'', Value = stringValue 0,
                 DefValue = []\<rparr>),
      (''LOG'', \<lparr>Name = ''LOG'', Description = ''log level'', Value = funcValue record_call,
                DefValue = []\<rparr>),
      (''COUNT'', \<lparr>Name = ''COUNT'', Description = ''number of workers'', Value = uint64Value 0,
                  DefValue = ''0''\<rparr>)]"

definition sample_EnvSet :: "ErrorHandling \<Rightarrow> EnvSet" where
  "sample_EnvSet eh = (NewEnvSet ''app'' eh)\<lparr>formal := sample_formal\<rparr>"

text \<open>A first call of Parse, on which a second call can follow.\<close>

definition first_Parse :: "error option outcome \<times> EnvSet \<times> world" where
  "first_Parse = Parse sample_stdlib (sample_EnvSet ContinueOnError) [''HOST=a''] zero_world"

section \<open>Auxiliary facts\<close>

lemma usage_environment [simp]: "usage L (e\<lparr>environment := x\<rparr>) = usage L e"
  by (rule ext)
    (simp add: usage_def defaultEnvironment_def PrintDefaults_def VisitAll_def split: option.splits)

lemma usage_actual [simp]: "usage L (e\<lparr>actual := x\<rparr>) = usage L e"
  by (rule ext)
    (simp add: usage_def defaultEnvironment_def PrintDefaults_def VisitAll_def split: option.splits)

lemma usage_parsed [simp]: "usage L (e\<lparr>parsed := x\<rparr>) = usage L e"
  by (rule ext)
    (simp add: usage_def defaultEnvironment_def PrintDefaults_def VisitAll_def split: option.splits)

lemma usage_errorHandling [simp]: "usage L (e\<lparr>errorHandling := x\<rparr>) = usage L e"
  by (rule ext)
    (simp add: usage_def defaultEnvironment_def PrintDefaults_def VisitAll_def split: option.splits)

lemma Parse_loop_Nil: "environment e = [] \<Longrightarrow> Parse_loop L e w = (Returns None, e, w)"
  by (simp add: Parse_loop.simps parseOne_def)

subsection \<open>Steps of the loop\<close>

lemma parseOne_errorHandling:
  "parseOne L (e\<lparr>errorHandling := x\<rparr>) w =
     (case parseOne L e w of (r, e1, w1) \<Rightarrow> (r, e1\<lparr>errorHandling := x\<rparr>, w1))"
  by (simp add: parseOne_def Let_def failf_def split: list.splits prod.splits option.splits)

lemma parseOne_Cons:
  "parseOne L (e\<lparr>environment := s # xs\<rparr>) w =
     (case parseOne L (e\<lparr>environment := [s]\<rparr>) w of
        (r, e1, w1) \<Rightarrow> (r, e1\<lparr>environment := xs\<rparr>, w1))"
  by (simp add: parseOne_def Let_def failf_def split: list.splits prod.splits option.splits)

lemma parseOne_keeps:
  "parseOne L e w = (r, e1, w1) \<Longrightarrow>
     errorHandling e1 = errorHandling e \<and> formal e1 = formal e \<and> Usage e1 = Usage e
       \<and> name e1 = name e \<and> parsed e1 = parsed e \<and> undef e1 = undef e
       \<and> environment e1 = tl (environment e)"
  by (auto simp: parseOne_def Let_def failf_def split: list.splits prod.splits option.splits if_splits)

lemma parseOne_not_done:
  "parseOne L (e\<lparr>environment := s # xs\<rparr>) w = ((err, d), e1, w1) \<Longrightarrow> \<not> d"
  by (auto simp: parseOne_def Let_def failf_def split: list.splits prod.splits option.splits if_splits)

lemma Parse_loop_done:
  "parseOne L e w = ((err, True), e1, w1) \<Longrightarrow> Parse_loop L e w = (Returns None, e1, w1)"
  by (subst Parse_loop.simps) simp

lemma Parse_loop_next:
  "parseOne L e w = ((None, False), e1, w1) \<Longrightarrow> Parse_loop L e w = Parse_loop L e1 w1"
  by (subst Parse_loop.simps) simp

lemma Parse_loop_fail:
  "parseOne L e w = ((Some er, False), e1, w1) \<Longrightarrow>
   Parse_loop L e w =
     (if errorHandling e1 = ContinueOnError then (Returns (Some er), e1, w1)
      else if errorHandling e1 = ExitOnError then
        (if er = ErrHelp then (Exits 0, e1, w1) else (Exits 2, e1, w1))
      else if errorHandling e1 = PanicOnError then (Panics (PanicError er), e1, w1)
      else Parse_loop L e1 w1)"
  by (subst Parse_loop.simps) simp

lemma Parse_loop_keeps:
  "Parse_loop L e w = (r, e2, w2) \<Longrightarrow>
     errorHandling e2 = errorHandling e \<and> formal e2 = formal e \<and> Usage e2 = Usage e
       \<and> name e2 = name e \<and> parsed e2 = parsed e \<and> undef e2 = undef e"
proof (induction L e w rule: Parse_loop.induct)
  case (1 L e w)
  obtain err d e1 w1 where p: "parseOne L e w = ((err, d), e1, w1)"
    by (metis surj_pair)
  note k = parseOne_keeps [OF p]
  show ?case
  proof (cases d)
    case True
    with p "1.prems" k show ?thesis by (simp add: Parse_loop_done)
  next
    case False
    show ?thesis
    proof (cases err)
      case None
      with p False "1.prems" have "Parse_loop L e1 w1 = (r, e2, w2)"
        by (simp add: Parse_loop_next)
      with "1.IH"(1) [OF p [symmetric] refl refl False None] k show ?thesis by simp
    next
      case (Some er)
      with p False have f: "parseOne L e w = ((Some er, False), e1, w1)" by simp
      show ?thesis
      proof (cases "errorHandling e1 = ContinueOnError \<or> errorHandling e1 = ExitOnError
          \<or> errorHandling e1 = PanicOnError")
        case True
        with "1.prems" k show ?thesis
          by (auto simp: Parse_loop_fail [OF f] split: if_splits)
      next
        case other: False
        with "1.prems" have "Parse_loop L e1 w1 = (r, e2, w2)"
          by (simp add: Parse_loop_fail [OF f])
        with "1.IH"(2) [OF p [symmetric] refl refl False Some] other k show ?thesis by simp
      qed
    qed
  qed
qed

lemma Parse_loop_append:
  "Parse_loop L (e\<lparr>environment := pre\<rparr>) w = (Returns None, e1, w1) \<Longrightarrow>
   Parse_loop L (e\<lparr>environment := pre @ rest\<rparr>) w = Parse_loop L (e1\<lparr>environment := rest\<rparr>) w1"
proof (induction pre arbitrary: e w)
  case Nil
  then show ?case by (auto simp: Parse_loop_Nil)
next
  case (Cons s pre)
  obtain err d e' w' where p: "parseOne L (e\<lparr>environment := [s]\<rparr>) w = ((err, d), e', w')"
    by (metis surj_pair)
  from parseOne_not_done [OF p] have d: "\<not> d" .
  have p1: "parseOne L (e\<lparr>environment := s # pre\<rparr>) w = ((err, False), e'\<lparr>environment := pre\<rparr>, w')"
    using p d by (simp add: parseOne_Cons [where xs = pre])
  have p2: "parseOne L (e\<lparr>environment := s # pre @ rest\<rparr>) w
      = ((err, False), e'\<lparr>environment := pre @ rest\<rparr>, w')"
    using p d by (simp add: parseOne_Cons [where xs = "pre @ rest"])
  show ?case
  proof (cases err)
    case None
    with Cons.prems p1 have "Parse_loop L (e'\<lparr>environment := pre\<rparr>) w' = (Returns None, e1, w1)"
      by (simp add: Parse_loop_next)
    from Cons.IH [OF this] p2 None show ?thesis by (simp add: Parse_loop_next)
  next
    case (Some er)
    show ?thesis
    proof (cases "errorHandling e' = ContinueOnError \<or> errorHandling e' = ExitOnError
          \<or> errorHandling e' = PanicOnError")
      case True
      with Cons.prems p1 Some show ?thesis
        by (auto simp: Parse_loop_fail split: if_splits)
    next
      case False
      with Cons.prems p1 Some
      have "Parse_loop L (e'\<lparr>environment := pre\<rparr>) w' = (Returns None, e1, w1)"
        by (simp add: Parse_loop_fail)
      from Cons.IH [OF this] p2 Some False show ?thesis by (simp add: Parse_loop_fail)
    qed
  qed
qed

lemma parseOne_failed_actual:
  "parseOne L e w = ((Some er, d), e1, w1) \<Longrightarrow> actual e1 = actual e \<and> \<not> d"
  by (auto simp: parseOne_def Let_def failf_def split: list.splits prod.splits option.splits if_splits)

lemma Parse_loop_fail3:
  assumes "errorHandling e = ContinueOnError \<or> errorHandling e = ExitOnError
      \<or> errorHandling e = PanicOnError"
    and "parseOne L e w = ((Some er, False), e1, w1)"
  shows "Parse_loop L e w = ((if errorHandling e = ContinueOnError then Returns (Some er)
              else if errorHandling e = ExitOnError then (if er = ErrHelp then Exits 0 else Exits 2)
              else Panics (PanicError er)), e1, w1)"
proof -
  from parseOne_keeps [OF assms(2)] have k: "errorHandling e1 = errorHandling e" by simp
  show ?thesis
    unfolding Parse_loop_fail [OF assms(2)] k
    using assms(1) by (auto simp: ContinueOnError_def ExitOnError_def PanicOnError_def)
qed

lemma Parse_loop_first_failure:
  assumes "errorHandling e = ContinueOnError \<or> errorHandling e = ExitOnError
      \<or> errorHandling e = PanicOnError"
    and "Parse_loop L (e\<lparr>environment := env\<rparr>) w = (r, e2, w2)"
  shows "r = Returns None \<or>
    (\<exists>pre s post e1 w1 er.
       env = pre @ s # post
       \<and> Parse_loop L (e\<lparr>environment := pre\<rparr>) w = (Returns None, e1, w1)
       \<and> parseOne L (e1\<lparr>environment := s # post\<rparr>) w1 = ((Some er, False), e2, w2)
       \<and> r = (if errorHandling e = ContinueOnError then Returns (Some er)
              else if errorHandling e = ExitOnError then (if er = ErrHelp then Exits 0 else Exits 2)
              else Panics (PanicError er)))"
  using assms
proof (induction env arbitrary: e w)
  case Nil
  then show ?case by (simp add: Parse_loop_Nil)
next
  case (Cons s xs)
  obtain err d e' w' where p: "parseOne L (e\<lparr>environment := [s]\<rparr>) w = ((err, d), e', w')"
    by (metis surj_pair)
  from parseOne_not_done [OF p] have d: "\<not> d" .
  have p1: "parseOne L (e\<lparr>environment := s # xs\<rparr>) w = ((err, False), e'\<lparr>environment := xs\<rparr>, w')"
    using p d by (simp add: parseOne_Cons [where xs = xs])
  from parseOne_keeps [OF p] have k: "errorHandling e' = errorHandling e" by simp
  show ?case
  proof (cases err)
    case None
    with Cons.prems(2) p1 have l: "Parse_loop L (e'\<lparr>environment := xs\<rparr>) w' = (r, e2, w2)"
      by (simp add: Parse_loop_next)
    have eh: "errorHandling e' = ContinueOnError \<or> errorHandling e' = ExitOnError
      \<or> errorHandling e' = PanicOnError" unfolding k by (rule Cons.prems(1))
    from Cons.IH [OF eh l]
    show ?thesis
    proof
      assume "r = Returns None"
      then show ?thesis by (rule disjI1)
    next
      assume "\<exists>pre s post e1 w1 er.
       xs = pre @ s # post
       \<and> Parse_loop L (e'\<lparr>environment := pre\<rparr>) w' = (Returns None, e1, w1)
       \<and> parseOne L (e1\<lparr>environment := s # post\<rparr>) w1 = ((Some er, False), e2, w2)
       \<and> r = (if errorHandling e' = ContinueOnError then Returns (Some er)
              else if errorHandling e' = ExitOnError then (if er = ErrHelp then Exits 0 else Exits 2)
              else Panics (PanicError er))"
      then obtain pre t post e1 w1 er where x: "xs = pre @ t # post"
        and a: "Parse_loop L (e'\<lparr>environment := pre\<rparr>) w' = (Returns None, e1, w1)"
        and b: "parseOne L (e1\<lparr>environment := t # post\<rparr>) w1 = ((Some er, False), e2, w2)"
        and c: "r = (if errorHandling e' = ContinueOnError then Returns (Some er)
              else if errorHandling e' = ExitOnError then (if er = ErrHelp then Exits 0 else Exits 2)
              else Panics (PanicError er))"
        by blast
      have p3: "parseOne L (e\<lparr>environment := s # pre\<rparr>) w
          = ((None, False), e'\<lparr>environment := pre\<rparr>, w')"
        using p d None by (simp add: parseOne_Cons [where xs = pre])
      have a': "Parse_loop L (e\<lparr>environment := s # pre\<rparr>) w = (Returns None, e1, w1)"
        unfolding Parse_loop_next [OF p3] by (rule a)
      have x': "s # xs = (s # pre) @ t # post" unfolding x by simp
      have c': "r = (if errorHandling e = ContinueOnError then Returns (Some er)
              else if errorHandling e = ExitOnError then (if er = ErrHelp then Exits 0 else Exits 2)
              else Panics (PanicError er))" using c unfolding k .
      have "s # xs = (s # pre) @ t # post
       \<and> Parse_loop L (e\<lparr>environment := s # pre\<rparr>) w = (Returns None, e1, w1)
       \<and> parseOne L (e1\<lparr>environment := t # post\<rparr>) w1 = ((Some er, False), e2, w2)
       \<and> r = (if errorHandling e = ContinueOnError then Returns (Some er)
              else if errorHandling e = ExitOnError then (if er = ErrHelp then Exits 0 else Exits 2)
              else Panics (PanicError er))"
        by (intro conjI x' a' b c')
      then show ?thesis by (intro disjI2 exI)
    qed
  next
    case (Some er)
    have f: "parseOne L (e\<lparr>environment := s # xs\<rparr>) w = ((Some er, False), e'\<lparr>environment := xs\<rparr>, w')"
      using p1 Some by simp
    have eh: "errorHandling (e\<lparr>environment := s # xs\<rparr>) = ContinueOnError
        \<or> errorHandling (e\<lparr>environment := s # xs\<rparr>) = ExitOnError
        \<or> errorHandling (e\<lparr>environment := s # xs\<rparr>) = PanicOnError"
      using Cons.prems(1) by simp
    from Parse_loop_fail3 [OF eh f] Cons.prems(2)
    have e2: "e'\<lparr>environment := xs\<rparr> = e2" and w2: "w' = w2"
      and r: "r = (if errorHandling e = ContinueOnError then Returns (Some er)
              else if errorHandling e = ExitOnError then (if er = ErrHelp then Exits 0 else Exits 2)
              else Panics (PanicError er))"
      by simp_all
    have n: "Parse_loop L (e\<lparr>environment := []\<rparr>) w = (Returns None, e\<lparr>environment := []\<rparr>, w)"
      by (simp add: Parse_loop_Nil)
    have f': "parseOne L (e\<lparr>environment := []\<rparr>\<lparr>environment := s # xs\<rparr>) w = ((Some er, False), e2, w2)"
      using f e2 w2 by simp
    have x: "s # xs = [] @ s # xs" by simp
    have "s # xs = [] @ s # xs
       \<and> Parse_loop L (e\<lparr>environment := []\<rparr>) w = (Returns None, e\<lparr>environment := []\<rparr>, w)
       \<and> parseOne L (e\<lparr>environment := []\<rparr>\<lparr>environment := s # xs\<rparr>) w = ((Some er, False), e2, w2)
       \<and> r = (if errorHandling e = ContinueOnError then Returns (Some er)
              else if errorHandling e = ExitOnError then (if er = ErrHelp then Exits 0 else Exits 2)
              else Panics (PanicError er))"
      by (intro conjI x n f' r)
    then show ?thesis by (intro disjI2 exI)
  qed
qed

lemma Parse_loop_stops:
  assumes "errorHandling e = ContinueOnError \<or> errorHandling e = ExitOnError
      \<or> errorHandling e = PanicOnError"
    and "Parse_loop L (e\<lparr>environment := pre\<rparr>) w = (Returns None, e1, w1)"
    and "parseOne L (e1\<lparr>environment := s # post\<rparr>) w1 = ((Some er, d), e2, w2)"
  shows "Parse_loop L (e\<lparr>environment := pre @ s # post\<rparr>) w =
      (if errorHandling e = ContinueOnError then Returns (Some er)
       else if errorHandling e = ExitOnError then (if er = ErrHelp then Exits 0 else Exits 2)
       else Panics (PanicError er), e2, w2)"
proof -
  from parseOne_not_done [OF assms(3)] assms(3)
  have f: "parseOne L (e1\<lparr>environment := s # post\<rparr>) w1 = ((Some er, False), e2, w2)" by simp
  from Parse_loop_keeps [OF assms(2)] have "errorHandling e1 = errorHandling e" by simp
  with parseOne_keeps [OF f] have k: "errorHandling e2 = errorHandling e" by simp
  show ?thesis
    using assms(1) k
    by (auto simp: Parse_loop_append [OF assms(2)] Parse_loop_fail [OF f]
        ContinueOnError_def ExitOnError_def PanicOnError_def)
qed

subsection \<open>Declarations that panic\<close>

lemma Var_errorHandling:
  "Var L (e\<lparr>errorHandling := eh\<rparr>) val nm d w
     = (case Var L e val nm d w of (r, e1, w1) \<Rightarrow> (r, e1\<lparr>errorHandling := eh\<rparr>, w1))"
  by (simp add: Var_def Let_def sprintf_def)

lemma Var_panics_once:
  assumes "CHR ''='' \<in> set nm \<or> map_of (formal e) nm \<noteq> None"
  shows "\<exists>msg w1. Var L e val nm d w = (Panics (PanicString msg), e, w1)"
  using assms by (auto simp: Var_def sprintf_def Let_def)

lemma Var_panics:
  assumes "CHR ''='' \<in> set nm \<or> map_of (formal e) nm \<noteq> None"
  shows "\<exists>msg w1. \<forall>eh. Var L (e\<lparr>errorHandling := eh\<rparr>) val nm d w
      = (Panics (PanicString msg), e\<lparr>errorHandling := eh\<rparr>, w1)"
proof -
  from Var_panics_once [OF assms] obtain msg w1
    where "Var L e val nm d w = (Panics (PanicString msg), e, w1)" by blast
  then have "\<forall>eh. Var L (e\<lparr>errorHandling := eh\<rparr>) val nm d w
      = (Panics (PanicString msg), e\<lparr>errorHandling := eh\<rparr>, w1)"
    by (simp add: Var_errorHandling)
  then show ?thesis by (intro exI)
qed

lemma TextVar_panics:
  assumes "CHR ''='' \<in> set nm \<or> map_of (formal e) nm \<noteq> None"
  shows "\<exists>x w1. \<forall>eh. TextVar L (e\<lparr>errorHandling := eh\<rparr>) p nm val d w
      = (Panics x, e\<lparr>errorHandling := eh\<rparr>, w1)"
proof (cases "newTextValue val p w")
  case (Pair r w0)
  show ?thesis
  proof (cases r)
    case (Returns v)
    from Var_panics [OF assms, of L v d w0] obtain msg w1
      where "\<forall>eh. Var L (e\<lparr>errorHandling := eh\<rparr>) v nm d w0
        = (Panics (PanicString msg), e\<lparr>errorHandling := eh\<rparr>, w1)" by blast
    then have "\<forall>eh. TextVar L (e\<lparr>errorHandling := eh\<rparr>) p nm val d w
      = (Panics (PanicString msg), e\<lparr>errorHandling := eh\<rparr>, w1)"
      using Pair Returns by (simp add: TextVar_def)
    then show ?thesis by (intro exI)
  next
    case (Exits n)
    with Pair have False
      by (auto simp: newTextValue_def split: option.splits rtype.splits if_splits)
    then show ?thesis ..
  next
    case (Panics x)
    with Pair have "\<forall>eh. TextVar L (e\<lparr>errorHandling := eh\<rparr>) p nm val d w
      = (Panics x, e\<lparr>errorHandling := eh\<rparr>, w0)"
      by (simp add: TextVar_def)
    then show ?thesis by (intro exI)
  qed
qed

subsection \<open>The usage function\<close>

lemma PrintDefaults_frame: "\<exists>t. PrintDefaults L e w = w\<lparr>sink := sink w @ t\<rparr>"
  by (auto simp: PrintDefaults_def Let_def)

lemma usage_frame: "Usage e = None \<Longrightarrow> \<exists>t. usage L e w = w\<lparr>sink := sink w @ t\<rparr>"
proof -
  assume u: "Usage e = None"
  show ?thesis
  proof (cases "name e = []")
    case True
    obtain t where "PrintDefaults L e (w\<lparr>sink := sink w @ ''Environment:'' @ [CHR 0x0A]\<rparr>)
        = (w\<lparr>sink := sink w @ ''Environment:'' @ [CHR 0x0A]\<rparr>)
            \<lparr>sink := sink (w\<lparr>sink := sink w @ ''Environment:'' @ [CHR 0x0A]\<rparr>) @ t\<rparr>"
      using PrintDefaults_frame by blast
    with u True show ?thesis
      by (intro exI [of _ "''Environment:'' @ [CHR 0x0A] @ t"])
        (simp add: usage_def defaultEnvironment_def)
  next
    case False
    obtain t where "PrintDefaults L e (w\<lparr>sink := sink w @ ''Environment of '' @ name e @ '':'' @ [CHR 0x0A]\<rparr>)
        = (w\<lparr>sink := sink w @ ''Environment of '' @ name e @ '':'' @ [CHR 0x0A]\<rparr>)
            \<lparr>sink := sink (w\<lparr>sink := sink w @ ''Environment of '' @ name e @ '':'' @ [CHR 0x0A]\<rparr>) @ t\<rparr>"
      using PrintDefaults_frame by blast
    with u False show ?thesis
      by (intro exI [of _ "''Environment of '' @ name e @ '':'' @ [CHR 0x0A] @ t"])
        (simp add: usage_def defaultEnvironment_def)
  qed
qed


subsection \<open>The map actual along the loop\<close>

lemma set_take1_tl: "set xs = set (take 1 xs) \<union> set (tl xs)"
  by (cases xs) auto

lemma parseOne_done_Nil:
  "parseOne L e w = ((err, True), e1, w1) \<Longrightarrow> environment e = [] \<and> e1 = e"
  by (auto simp: parseOne_def Let_def failf_def
      split: list.splits prod.splits option.splits if_splits)

lemma parseOne_actual_exact:
  assumes "parseOne L e w = ((None, False), e1, w1)"
  shows "dom (map_of (actual e1)) = dom (map_of (actual e))
           \<union> (fst ` Cut ` set (take 1 (environment e)) \<inter> dom (map_of (formal e)))"
proof (cases "environment e")
  case Nil
  with assms show ?thesis by (simp add: parseOne_def)
next
  case (Cons s rest)
  obtain nm val where cut: "Cut s = (nm, val)" by (cases "Cut s")
  show ?thesis
  proof (cases "map_of (formal e) nm")
    case None
    with assms Cons cut show ?thesis
      by (auto simp: parseOne_def Let_def split: if_splits)
  next
    case (Some spec)
    with assms Cons cut show ?thesis
      by (auto simp: parseOne_def Let_def failf_def update_conv'
          split: if_splits prod.splits option.splits)
  qed
qed

lemma Parse_loop_actual_exact:
  "Parse_loop L e w = (Returns None, e2, w2) \<Longrightarrow>
   errorHandling e = ContinueOnError \<or> errorHandling e = ExitOnError
     \<or> errorHandling e = PanicOnError \<Longrightarrow>
     dom (map_of (actual e2)) = dom (map_of (actual e))
        \<union> (fst ` Cut ` set (environment e) \<inter> dom (map_of (formal e)))"
proof (induction L e w rule: Parse_loop.induct)
  case (1 L e w)
  obtain err d e1 w1 where p: "parseOne L e w = ((err, d), e1, w1)"
    by (metis surj_pair)
  note k = parseOne_keeps [OF p]
  have s: "set (environment e) = set (take 1 (environment e)) \<union> set (environment e1)"
    using k set_take1_tl [of "environment e"] by simp
  show ?case
  proof (cases d)
    case True
    with p parseOne_done_Nil [of L e w err e1 w1] have "environment e = []" "e1 = e"
      by simp_all
    with p True "1.prems"(1) show ?thesis by (simp add: Parse_loop_done)
  next
    case False
    show ?thesis
    proof (cases err)
      case None
      with p False "1.prems"(1) have l: "Parse_loop L e1 w1 = (Returns None, e2, w2)"
        by (simp add: Parse_loop_next)
      have eh: "errorHandling e1 = ContinueOnError \<or> errorHandling e1 = ExitOnError
          \<or> errorHandling e1 = PanicOnError"
        using k "1.prems"(2) by simp
      from "1.IH"(1) [OF p [symmetric] refl refl False None l eh] k
      have a: "dom (map_of (actual e2)) = dom (map_of (actual e1))
        \<union> (fst ` Cut ` set (environment e1) \<inter> dom (map_of (formal e)))" by simp
      from parseOne_actual_exact [of L e w e1 w1] p False None
      have b: "dom (map_of (actual e1)) = dom (map_of (actual e))
           \<union> (fst ` Cut ` set (take 1 (environment e)) \<inter> dom (map_of (formal e)))" by simp
      show ?thesis
        unfolding a b s by (simp only: image_Un Int_Un_distrib2 Un_assoc)
    next
      case (Some er)
      with p False have f: "parseOne L e w = ((Some er, False), e1, w1)" by simp
      have eh: "errorHandling e1 = errorHandling e" using k by simp
      from "1.prems" show ?thesis
        unfolding Parse_loop_fail [OF f] eh by (auto split: if_splits)
    qed
  qed
qed

lemma map_le_iff: "map_le m1 m2 \<longleftrightarrow> (\<forall>a y. m1 a = Some y \<longrightarrow> m2 a = Some y)"
  by (auto simp: map_le_def dom_def)

lemma parseOne_actual:
  "parseOne L e w = ((err, d), e1, w1) \<Longrightarrow>
     actual e1 = actual e \<or>
     (\<exists>s rest spec. environment e = s # rest \<and> map_of (formal e) (fst (Cut s)) = Some spec
        \<and> err = None \<and> actual e1 = AList.update (fst (Cut s)) spec (actual e))"
  by (auto simp: parseOne_def Let_def failf_def split: list.splits prod.splits option.splits if_splits)

lemma Parse_loop_invariant:
  assumes "Parse_loop L e w = (r, e2, w2)" and "P e"
    and "\<And>e w err d e1 w1. P e \<Longrightarrow> parseOne L e w = ((err, d), e1, w1) \<Longrightarrow> P e1"
  shows "P e2"
  using assms
proof (induction L e w rule: Parse_loop.induct)
  case (1 L e w)
  obtain err d e1 w1 where p: "parseOne L e w = ((err, d), e1, w1)"
    by (metis surj_pair)
  from "1.prems"(2,3) p have P1: "P e1" by blast
  show ?case
  proof (cases d)
    case True
    with p "1.prems"(1) P1 show ?thesis by (simp add: Parse_loop_done)
  next
    case False
    show ?thesis
    proof (cases err)
      case None
      with p False "1.prems"(1) have "Parse_loop L e1 w1 = (r, e2, w2)"
        by (simp add: Parse_loop_next)
      then show ?thesis
        by (rule "1.IH"(1) [OF p [symmetric] refl refl False None _ P1])
          (rule "1.prems"(3), assumption+)
    next
      case (Some er)
      with p False have f: "parseOne L e w = ((Some er, False), e1, w1)" by simp
      show ?thesis
      proof (cases "errorHandling e1 = ContinueOnError \<or> errorHandling e1 = ExitOnError
          \<or> errorHandling e1 = PanicOnError")
        case True
        with "1.prems"(1) P1 show ?thesis
          by (auto simp: Parse_loop_fail [OF f] split: if_splits)
      next
        case other: False
        with "1.prems"(1) have l: "Parse_loop L e1 w1 = (r, e2, w2)"
          by (simp add: Parse_loop_fail [OF f])
        from other have o: "errorHandling e1 \<noteq> ContinueOnError"
            "errorHandling e1 \<noteq> ExitOnError" "errorHandling e1 \<noteq> PanicOnError"
          by simp_all
        show ?thesis
          by (rule "1.IH"(2) [OF p [symmetric] refl refl False Some o l P1])
            (rule "1.prems"(3), assumption+)
      qed
    qed
  qed
qed

lemma Parse_loop_actual_mono:
  assumes "Parse_loop L e w = (r, e2, w2)"
  shows "dom (map_of (actual e)) \<subseteq> dom (map_of (actual e2))"
proof (rule Parse_loop_invariant
    [OF assms, where P = "\<lambda>e'. dom (map_of (actual e)) \<subseteq> dom (map_of (actual e'))"])
  show "dom (map_of (actual e)) \<subseteq> dom (map_of (actual e))" by simp
next
  fix e' w err d e1 w1
  assume a: "dom (map_of (actual e)) \<subseteq> dom (map_of (actual e'))"
    and p: "parseOne L e' w = ((err, d), e1, w1)"
  from parseOne_actual [OF p] a
  show "dom (map_of (actual e)) \<subseteq> dom (map_of (actual e1))"
    by (auto simp: update_conv')
qed

lemma Parse_loop_actual_bound:
  assumes "Parse_loop L e w = (r, e2, w2)"
  shows "dom (map_of (actual e2)) \<subseteq> dom (map_of (actual e))
        \<union> (fst ` Cut ` set (environment e) \<inter> dom (map_of (formal e)))"
proof -
  let ?A = "dom (map_of (actual e))
        \<union> (fst ` Cut ` set (environment e) \<inter> dom (map_of (formal e)))"
  let ?P = "\<lambda>e'. formal e' = formal e \<and> set (environment e') \<subseteq> set (environment e)
      \<and> dom (map_of (actual e')) \<subseteq> ?A"
  have "?P e2"
  proof (rule Parse_loop_invariant [OF assms, where P = ?P])
    show "?P e" by auto
  next
    fix e' w err d e1 w1
    assume a: "?P e'" and p: "parseOne L e' w = ((err, d), e1, w1)"
    note k = parseOne_keeps [OF p]
    have t: "set (tl (environment e')) \<subseteq> set (environment e')"
      by (cases "environment e'") auto
    from parseOne_actual [OF p]
    have "dom (map_of (actual e1)) \<subseteq> ?A"
    proof
      assume "actual e1 = actual e'"
      with a show ?thesis by simp
    next
      assume "\<exists>s rest spec. environment e' = s # rest
          \<and> map_of (formal e') (fst (Cut s)) = Some spec \<and> err = None
          \<and> actual e1 = AList.update (fst (Cut s)) spec (actual e')"
      then obtain s rest spec where u: "environment e' = s # rest"
          "map_of (formal e') (fst (Cut s)) = Some spec"
          "actual e1 = AList.update (fst (Cut s)) spec (actual e')"
        by blast
      from u(1) a have "s \<in> set (environment e)" by auto
      moreover from u(2) a have "fst (Cut s) \<in> dom (map_of (formal e))" by auto
      ultimately have "fst (Cut s) \<in> ?A" by blast
      with a u(3) show ?thesis by (simp add: update_conv')
    qed
    with a k t show "?P e1" by auto
  qed
  then show ?thesis by simp
qed

lemma Parse_loop_actual_formal:
  assumes "Parse_loop L e w = (r, e2, w2)"
    and "map_le (map_of (actual e)) (map_of (formal e))"
  shows "map_le (map_of (actual e2)) (map_of (formal e2))"
proof -
  let ?P = "\<lambda>e'. formal e' = formal e \<and> map_le (map_of (actual e')) (map_of (formal e))"
  have "?P e2"
  proof (rule Parse_loop_invariant [OF assms(1), where P = ?P])
    show "?P e" using assms(2) by simp
  next
    fix e' w err d e1 w1
    assume a: "?P e'" and p: "parseOne L e' w = ((err, d), e1, w1)"
    note k = parseOne_keeps [OF p]
    from parseOne_actual [OF p] a
    have "map_le (map_of (actual e1)) (map_of (formal e))"
      by (auto simp: map_le_iff update_conv' split: if_splits)
    with a k show "?P e1" by simp
  qed
  then show ?thesis by simp
qed


subsection \<open>What a failed Set has stored\<close>









subsection \<open>Definitions unfolded when an example is evaluated\<close>

lemmas sample_defs = sample_EnvSet_def sample_formal_def NewEnvSet_def sample_stdlib_def
  record_call_def
lemmas step_defs = Let_def Parse_def parseOne_def Cut_def failf_def sprintf_def invalid_value_def
lemmas policy_defs = ContinueOnError_def ExitOnError_def PanicOnError_def
lemmas strconv_defs = ParseUint_def ParseInt_def ParseBool_def byte_def maxUint64_def lower_def
  rangeError_def syntaxError_def underscoreOK_def int64_def IntSize_def
lemmas Set_defs = boolValue_Set_def intValue_Set_def int64Value_Set_def uintValue_Set_def
  uint64Value_Set_def stringValue_Set_def float64Value_Set_def durationValue_Set_def
  textValue_Set_def funcValue_Set_def boolFuncValue_Set_def


section \<open>Unknown names\<close>

text \<open>
  C9. A parse step on an entry whose name is not \<open>HELP\<close>, not \<open>H\<close> and not declared in
  \<open>formal\<close> reports no error, and leaves the world and the EnvSet as they were, the entry
  taken off the list apart: nothing is written to the sink, no memory of the caller
  changes whatever the declared Values and their callbacks are (no Set is called), and
  \<open>actual\<close> is the same.
\<close>

theorem unknown_name_skipped:
  assumes "environment e = s # rest"
    and "fst (Cut s) \<noteq> ''HELP''" and "fst (Cut s) \<noteq> ''H''"
    and "map_of (formal e) (fst (Cut s)) = None"
  shows "parseOne L e w = ((None, False), e\<lparr>environment := rest\<rparr>, w)"
  using assms by (cases "Cut s") (simp add: parseOne_def)

theorem unknown_name_skipped_witness:
  "parseOne sample_stdlib ((sample_EnvSet ContinueOnError)\<lparr>environment := [''UNRELATED=x'']\<rparr>)
     zero_world
   = ((None, False), (sample_EnvSet ContinueOnError)\<lparr>environment := []\<rparr>, zero_world)"
  using unknown_name_skipped
    [of "(sample_EnvSet ContinueOnError)\<lparr>environment := [''UNRELATED=x'']\<rparr>"
      "''UNRELATED=x''" "[]" sample_stdlib zero_world]
  by (simp add: sample_EnvSet_def sample_formal_def NewEnvSet_def Cut_def)

section \<open>The policy ExitOnError\<close>

text \<open>
  C5. With \<open>ExitOnError\<close>: when the entries \<open>pre\<close> parse without a failing step and the
  step on the next entry \<open>s\<close> fails with the error \<open>er\<close>, Parse on \<open>pre @ s # post\<close>
  exits, with status 0 if \<open>er\<close> is \<open>ErrHelp\<close> and with status 2 if it is any other error,
  in the state that step has left, whatever the entries \<open>post\<close> are. And Parse leaves the
  process only so: every call either returns nil, or has such a first failing step and
  exits with the status of that step. So a list without a failing step returns nil.
\<close>

theorem exit_status:
  assumes "errorHandling e = ExitOnError"
  shows "(Parse L e pre w = (Returns None, e1, w1)
          \<and> parseOne L (e1\<lparr>environment := s # post\<rparr>) w1 = ((Some er, d), e2, w2)
        \<longrightarrow> Parse L e (pre @ s # post) w
              = (if er = ErrHelp then Exits 0 else Exits 2, e2, w2))
    \<and> (Parse L e env w = (r, e3, w3) \<longrightarrow>
         r = Returns None \<or>
         (\<exists>pre s post e1 w1 er.
            env = pre @ s # post
            \<and> Parse L e pre w = (Returns None, e1, w1)
            \<and> parseOne L (e1\<lparr>environment := s # post\<rparr>) w1 = ((Some er, False), e3, w3)
            \<and> r = (if er = ErrHelp then Exits 0 else Exits 2)))"
proof -
  let ?e = "e\<lparr>parsed := True\<rparr>"
  have eh: "errorHandling ?e = ContinueOnError \<or> errorHandling ?e = ExitOnError
      \<or> errorHandling ?e = PanicOnError"
    using assms by simp
  have x: "errorHandling ?e = ExitOnError" "ExitOnError \<noteq> ContinueOnError"
    using assms by (simp_all add: ExitOnError_def ContinueOnError_def)
  have P: "\<And>xs. Parse L e xs w = Parse_loop L (?e\<lparr>environment := xs\<rparr>) w"
    by (simp add: Parse_def)
  have 1: "Parse L e pre w = (Returns None, e1, w1)
          \<and> parseOne L (e1\<lparr>environment := s # post\<rparr>) w1 = ((Some er, d), e2, w2)
        \<longrightarrow> Parse L e (pre @ s # post) w
              = (if er = ErrHelp then Exits 0 else Exits 2, e2, w2)"
    unfolding P using Parse_loop_stops [OF eh, of L pre w e1 w1 s post er d e2 w2] x
    by simp
  have 2: "Parse L e env w = (r, e3, w3) \<longrightarrow>
         r = Returns None \<or>
         (\<exists>pre s post e1 w1 er.
            env = pre @ s # post
            \<and> Parse L e pre w = (Returns None, e1, w1)
            \<and> parseOne L (e1\<lparr>environment := s # post\<rparr>) w1 = ((Some er, False), e3, w3)
            \<and> r = (if er = ErrHelp then Exits 0 else Exits 2))"
    unfolding P using Parse_loop_first_failure [OF eh, of L env w r e3 w3] x
    by simp
  from 1 2 show ?thesis by (rule conjI)
qed

theorem exit_status_witness:
  "fst (Parse sample_stdlib (sample_EnvSet ExitOnError) ([''HOST=a''] @ ''HELP=1'' # [''PORT=abc''])
         zero_world) = Exits 0
   \<and> fst (Parse sample_stdlib (sample_EnvSet ExitOnError) ([] @ ''PORT=abc'' # [''HELP=1''])
         zero_world) = Exits 2
   \<and> fst (Parse sample_stdlib (sample_EnvSet ExitOnError) [] zero_world) = Returns None
   \<and> fst (Parse sample_stdlib (sample_EnvSet ExitOnError) [''PORT=8080'', ''X=1''] zero_world)
       = Returns None"
proof -
  let ?e = "sample_EnvSet ExitOnError"
  let ?L = sample_stdlib
  have e: "errorHandling ?e = ExitOnError"
    by (simp add: sample_defs)
  let ?P1 = "Parse ?L ?e [''HOST=a''] zero_world"
  let ?S1 = "parseOne ?L ((fst (snd ?P1))\<lparr>environment := ''HELP=1'' # [''PORT=abc'']\<rparr>)
      (snd (snd ?P1))"
  have "fst ?P1 = Returns None"
    by (simp add: step_defs sample_defs policy_defs Parse_loop.simps Set_defs)
  then have a1: "?P1 = (Returns None, fst (snd ?P1), snd (snd ?P1))"
    by (simp add: prod_eq_iff)
  have "fst (fst ?S1) = Some ErrHelp"
    by (simp add: parseOne_def Cut_def)
  then have b1: "?S1 = ((Some ErrHelp, snd (fst ?S1)), fst (snd ?S1), snd (snd ?S1))"
    by (simp add: prod_eq_iff)
  note c1 = exit_status [OF e, THEN conjunct1, THEN mp, OF conjI, OF a1 b1]
  have 1: "fst (Parse ?L ?e ([''HOST=a''] @ ''HELP=1'' # [''PORT=abc'']) zero_world) = Exits 0"
    unfolding c1 by simp
  let ?P2 = "Parse ?L ?e [] zero_world"
  let ?S2 = "parseOne ?L ((fst (snd ?P2))\<lparr>environment := ''PORT=abc'' # [''HELP=1'']\<rparr>)
      (snd (snd ?P2))"
  let ?m = "ErrorsNew (''invalid value '' @ [CHR 0x22] @ ''abc'' @ [CHR 0x22]
         @ '' for variable PORT: parse error'')"
  have "fst ?P2 = Returns None"
    by (simp add: Parse_def Parse_loop_Nil)
  then have a2: "?P2 = (Returns None, fst (snd ?P2), snd (snd ?P2))"
    by (simp add: prod_eq_iff)
  have "fst (fst ?S2) = Some ?m"
    by (simp add: step_defs sample_defs policy_defs Parse_loop_Nil Set_defs strconv_defs)
  then have b2: "?S2 = ((Some ?m, snd (fst ?S2)), fst (snd ?S2), snd (snd ?S2))"
    by (simp add: prod_eq_iff)
  have m: "?m \<noteq> ErrHelp" by simp
  note c2 = exit_status [OF e, THEN conjunct1, THEN mp, OF conjI, OF a2 b2]
  have 2: "fst (Parse ?L ?e ([] @ ''PORT=abc'' # [''HELP=1'']) zero_world) = Exits 2"
    unfolding c2 by simp
  have p2: "?P2 = (fst ?P2, fst (snd ?P2), snd (snd ?P2))" by simp
  from exit_status [OF e, THEN conjunct2, THEN mp, OF p2]
  have 3: "fst ?P2 = Returns None"
    by simp
  have 4: "fst (Parse ?L ?e [''PORT=8080'', ''X=1''] zero_world) = Returns None"
    by (simp add: step_defs sample_defs policy_defs Parse_loop.simps Set_defs strconv_defs)
  from 1 2 3 4 show ?thesis by (intro conjI)
qed


section \<open>The names HELP and H\<close>

text \<open>
  C4, as amended. With \<open>ContinueOnError\<close>, when every entry before the first entry named
  \<open>HELP\<close> or \<open>H\<close> parses without error, Parse returns \<open>ErrHelp\<close>; the world is the
  world after those entries with the usage function applied to it once, so no Set is
  called for the help entry or for a later one; the later entries stay on the list,
  unread. With the default usage function the one change is text appended to the sink.
\<close>

theorem help_stops_Parse:
  assumes "errorHandling e = ContinueOnError"
    and "Parse L e pre w = (Returns None, e1, w1)"
    and "fst (Cut h) = ''HELP'' \<or> fst (Cut h) = ''H''"
  shows "Parse L e (pre @ h # post) w
      = (Returns (Some ErrHelp), e1\<lparr>environment := post\<rparr>, usage L e1 w1)
    \<and> (Usage e = None \<longrightarrow> (\<exists>t. usage L e1 w1 = w1\<lparr>sink := sink w1 @ t\<rparr>))"
proof -
  from assms(2) have pre: "Parse_loop L (e\<lparr>parsed := True, environment := pre\<rparr>) w
      = (Returns None, e1, w1)"
    by (simp add: Parse_def)
  from Parse_loop_keeps [OF pre] assms(1)
  have k: "errorHandling e1 = ContinueOnError" "Usage e1 = Usage e" by simp_all
  obtain nm val where cut: "Cut h = (nm, val)" by (cases "Cut h")
  with assms(3) have nm: "nm = ''HELP'' \<or> nm = ''H''" by simp
  have step: "parseOne L (e1\<lparr>environment := h # post\<rparr>) w1
      = ((Some ErrHelp, False), e1\<lparr>environment := post\<rparr>, usage L e1 w1)"
    using nm by (auto simp: parseOne_def cut)
  have "Parse L e (pre @ h # post) w = Parse_loop L (e1\<lparr>environment := h # post\<rparr>) w1"
    using Parse_loop_append [OF pre, of "h # post"] by (simp add: Parse_def)
  also have "\<dots> = (Returns (Some ErrHelp), e1\<lparr>environment := post\<rparr>, usage L e1 w1)"
    using k by (simp add: Parse_loop_fail [OF step])
  finally show ?thesis using usage_frame [of e1 L w1] k by simp
qed

theorem help_stops_Parse_witness:
  "fst (Parse sample_stdlib (sample_EnvSet ContinueOnError)
         ([''PORT=8080'', ''UNRELATED=x''] @ ''HELP=1'' # [''HOST=a'', ''LOG=debug'']) zero_world)
     = Returns (Some ErrHelp)
   \<and> environment (fst (snd (Parse sample_stdlib (sample_EnvSet ContinueOnError)
         ([''PORT=8080'', ''UNRELATED=x''] @ ''HELP=1'' # [''HOST=a'', ''LOG=debug'']) zero_world)))
     = [''HOST=a'', ''LOG=debug'']
   \<and> mem_int (snd (snd (Parse sample_stdlib (sample_EnvSet ContinueOnError)
         ([''PORT=8080'', ''UNRELATED=x''] @ ''HELP=1'' # [''HOST=a'', ''LOG=debug'']) zero_world))) 0
     = 8080
   \<and> mem_string (snd (snd (Parse sample_stdlib (sample_EnvSet ContinueOnError)
         ([''PORT=8080'', ''UNRELATED=x''] @ ''HELP=1'' # [''HOST=a'', ''LOG=debug'']) zero_world))) 0
     = []
   \<and> mem_string (snd (snd (Parse sample_stdlib (sample_EnvSet ContinueOnError)
         ([''PORT=8080'', ''UNRELATED=x''] @ ''HELP=1'' # [''HOST=a'', ''LOG=debug'']) zero_world))) 9
     = []"
proof -
  let ?e = "sample_EnvSet ContinueOnError"
  have eh: "errorHandling ?e = ContinueOnError" and u: "Usage ?e = None"
    by (simp_all add: sample_defs)
  have r: "fst (Parse sample_stdlib ?e [''PORT=8080'', ''UNRELATED=x''] zero_world) = Returns None"
    by (simp add: step_defs sample_defs policy_defs Parse_loop.simps Set_defs strconv_defs)
  have m: "mem_int (snd (snd (Parse sample_stdlib ?e [''PORT=8080'', ''UNRELATED=x''] zero_world))) 0
        = 8080"
      "mem_string (snd (snd (Parse sample_stdlib ?e [''PORT=8080'', ''UNRELATED=x''] zero_world)))
        = (\<lambda>_. [])"
    by (simp_all add: step_defs sample_defs policy_defs Parse_loop.simps Set_defs strconv_defs
        zero_world_def)
  obtain e1 w1 where p: "Parse sample_stdlib ?e [''PORT=8080'', ''UNRELATED=x''] zero_world
      = (Returns None, e1, w1)"
    using r by (metis prod.collapse)
  have c: "fst (Cut ''HELP=1'') = ''HELP'' \<or> fst (Cut ''HELP=1'') = ''H''"
    by (simp add: Cut_def)
  from help_stops_Parse [OF eh p c, of "[''HOST=a'', ''LOG=debug'']"] u m p
  show ?thesis by auto
qed


text \<open>
  The claim as stated fails when an earlier entry fails: the error of that entry is
  returned, not \<open>ErrHelp\<close>.
\<close>

theorem help_after_failure_counterexample:
  "fst (Cut ''HELP=1'') = ''HELP''
   \<and> fst (Parse sample_stdlib (sample_EnvSet ContinueOnError) [''PORT=abc'', ''HELP=1''] zero_world)
     = Returns (Some (ErrorsNew (''invalid value '' @ [CHR 0x22] @ ''abc'' @ [CHR 0x22]
         @ '' for variable PORT: parse error'')))
   \<and> fst (Parse sample_stdlib (sample_EnvSet ContinueOnError) [''PORT=abc'', ''HELP=1''] zero_world)
     \<noteq> Returns (Some ErrHelp)"
  by (simp add: step_defs sample_defs policy_defs Parse_loop.simps Set_defs strconv_defs)

section \<open>The maps formal and actual\<close>

text \<open>
  C1, as amended. A call of Parse leaves \<open>formal\<close> as it was and never takes a name out
  of \<open>actual\<close>: the names of \<open>actual\<close> after the call are those before the call together
  with declared names of the environment list, and \<open>actual\<close> is a part of \<open>formal\<close> after
  the call if it was before. Under one of the three policies the names are exactly these:
  when Parse returns nil, the names before the call and the declared names of the whole
  list; otherwise the call has a first failing step, on an entry \<open>s\<close> after entries \<open>pre\<close>
  that parse without failure, and the names are those before the call and the declared
  names of \<open>pre\<close>: the name of the failing entry and the names of later entries are not
  added.
\<close>

theorem actual_after_Parse:
  assumes "Parse L e env w = (r, e2, w2)"
  shows "formal e2 = formal e
    \<and> dom (map_of (actual e)) \<subseteq> dom (map_of (actual e2))
    \<and> dom (map_of (actual e2))
        \<subseteq> dom (map_of (actual e)) \<union> (fst ` Cut ` set env \<inter> dom (map_of (formal e)))
    \<and> (map_le (map_of (actual e)) (map_of (formal e))
         \<longrightarrow> map_le (map_of (actual e2)) (map_of (formal e2)))
    \<and> (errorHandling e = ContinueOnError \<or> errorHandling e = ExitOnError
            \<or> errorHandling e = PanicOnError
         \<longrightarrow> (r = Returns None
               \<and> dom (map_of (actual e2))
                  = dom (map_of (actual e)) \<union> (fst ` Cut ` set env \<inter> dom (map_of (formal e))))
             \<or> (\<exists>pre s post e1 w1 er.
                   env = pre @ s # post
                   \<and> Parse L e pre w = (Returns None, e1, w1)
                   \<and> parseOne L (e1\<lparr>environment := s # post\<rparr>) w1 = ((Some er, False), e2, w2)
                   \<and> r \<noteq> Returns None
                   \<and> dom (map_of (actual e2))
                      = dom (map_of (actual e))
                          \<union> (fst ` Cut ` set pre \<inter> dom (map_of (formal e)))))
    \<and> ((errorHandling e = ContinueOnError \<or> errorHandling e = ExitOnError
            \<or> errorHandling e = PanicOnError)
          \<and> env = pre @ s # post
          \<and> Parse L e pre w = (Returns None, e1, w1)
          \<and> fst (fst (parseOne L (e1\<lparr>environment := s # post\<rparr>) w1)) \<noteq> None
         \<longrightarrow> r \<noteq> Returns None
             \<and> actual e2 = actual e1
             \<and> dom (map_of (actual e2))
                = dom (map_of (actual e)) \<union> (fst ` Cut ` set pre \<inter> dom (map_of (formal e))))"
proof -
  let ?e = "e\<lparr>parsed := True, environment := env\<rparr>"
  let ?p = "e\<lparr>parsed := True\<rparr>"
  let ?three = "errorHandling e = ContinueOnError \<or> errorHandling e = ExitOnError
            \<or> errorHandling e = PanicOnError"
  have P: "\<And>xs. Parse L e xs w = Parse_loop L (?p\<lparr>environment := xs\<rparr>) w"
    by (simp add: Parse_def)
  from assms have l: "Parse_loop L ?e w = (r, e2, w2)" by (simp add: Parse_def)
  from Parse_loop_keeps [OF l] have 1: "formal e2 = formal e" by simp
  from Parse_loop_actual_mono [OF l]
  have 2: "dom (map_of (actual e)) \<subseteq> dom (map_of (actual e2))" by simp
  from Parse_loop_actual_bound [OF l]
  have 3: "dom (map_of (actual e2))
        \<subseteq> dom (map_of (actual e)) \<union> (fst ` Cut ` set env \<inter> dom (map_of (formal e)))"
    by simp
  have 4: "map_le (map_of (actual e)) (map_of (formal e))
         \<longrightarrow> map_le (map_of (actual e2)) (map_of (formal e2))"
    using Parse_loop_actual_formal [OF l] by simp
  have pre_exact: "dom (map_of (actual e1))
        = dom (map_of (actual e)) \<union> (fst ` Cut ` set pre \<inter> dom (map_of (formal e)))"
    if t: ?three and q: "Parse L e pre w = (Returns None, e1, w1)" for pre e1 w1
  proof -
    from q have "Parse_loop L (?p\<lparr>environment := pre\<rparr>) w = (Returns None, e1, w1)"
      unfolding P .
    from Parse_loop_actual_exact [OF this] t show ?thesis by simp
  qed
  have ne: "r \<noteq> Returns None"
    if "r = (if errorHandling e = ContinueOnError then Returns (Some er)
              else if errorHandling e = ExitOnError then (if er = ErrHelp then Exits 0 else Exits 2)
              else Panics (PanicError er))" for er
    using that by (simp split: if_splits)
  have 5: "?three
         \<longrightarrow> (r = Returns None
               \<and> dom (map_of (actual e2))
                  = dom (map_of (actual e)) \<union> (fst ` Cut ` set env \<inter> dom (map_of (formal e))))
             \<or> (\<exists>pre s post e1 w1 er.
                   env = pre @ s # post
                   \<and> Parse L e pre w = (Returns None, e1, w1)
                   \<and> parseOne L (e1\<lparr>environment := s # post\<rparr>) w1 = ((Some er, False), e2, w2)
                   \<and> r \<noteq> Returns None
                   \<and> dom (map_of (actual e2))
                      = dom (map_of (actual e))
                          \<union> (fst ` Cut ` set pre \<inter> dom (map_of (formal e))))"
  proof
    assume t: ?three
    then have t': "errorHandling ?p = ContinueOnError \<or> errorHandling ?p = ExitOnError
        \<or> errorHandling ?p = PanicOnError" by simp
    have l': "Parse_loop L (?p\<lparr>environment := env\<rparr>) w = (r, e2, w2)" using l by simp
    from Parse_loop_first_failure [OF t' l']
    show "(r = Returns None
               \<and> dom (map_of (actual e2))
                  = dom (map_of (actual e)) \<union> (fst ` Cut ` set env \<inter> dom (map_of (formal e))))
             \<or> (\<exists>pre s post e1 w1 er.
                   env = pre @ s # post
                   \<and> Parse L e pre w = (Returns None, e1, w1)
                   \<and> parseOne L (e1\<lparr>environment := s # post\<rparr>) w1 = ((Some er, False), e2, w2)
                   \<and> r \<noteq> Returns None
                   \<and> dom (map_of (actual e2))
                      = dom (map_of (actual e))
                          \<union> (fst ` Cut ` set pre \<inter> dom (map_of (formal e))))"
    proof
      assume r: "r = Returns None"
      with assms have "Parse L e env w = (Returns None, e2, w2)" by simp
      from pre_exact [OF t this] r show ?thesis by simp
    next
      assume "\<exists>pre s post e1 w1 er.
       env = pre @ s # post
       \<and> Parse_loop L (?p\<lparr>environment := pre\<rparr>) w = (Returns None, e1, w1)
       \<and> parseOne L (e1\<lparr>environment := s # post\<rparr>) w1 = ((Some er, False), e2, w2)
       \<and> r = (if errorHandling ?p = ContinueOnError then Returns (Some er)
              else if errorHandling ?p = ExitOnError then (if er = ErrHelp then Exits 0 else Exits 2)
              else Panics (PanicError er))"
      then obtain pre s post e1 w1 er where x: "env = pre @ s # post"
        and a: "Parse_loop L (?p\<lparr>environment := pre\<rparr>) w = (Returns None, e1, w1)"
        and b: "parseOne L (e1\<lparr>environment := s # post\<rparr>) w1 = ((Some er, False), e2, w2)"
        and c: "r = (if errorHandling ?p = ContinueOnError then Returns (Some er)
              else if errorHandling ?p = ExitOnError then (if er = ErrHelp then Exits 0 else Exits 2)
              else Panics (PanicError er))"
        by blast
      have a': "Parse L e pre w = (Returns None, e1, w1)" unfolding P by (rule a)
      from c have n: "r \<noteq> Returns None" by (simp split: if_splits)
      from parseOne_failed_actual [OF b] have "actual e2 = actual e1" by simp
      with pre_exact [OF t a']
      have d: "dom (map_of (actual e2))
          = dom (map_of (actual e)) \<union> (fst ` Cut ` set pre \<inter> dom (map_of (formal e)))"
        by simp
      have "env = pre @ s # post
                   \<and> Parse L e pre w = (Returns None, e1, w1)
                   \<and> parseOne L (e1\<lparr>environment := s # post\<rparr>) w1 = ((Some er, False), e2, w2)
                   \<and> r \<noteq> Returns None
                   \<and> dom (map_of (actual e2))
                      = dom (map_of (actual e))
                          \<union> (fst ` Cut ` set pre \<inter> dom (map_of (formal e)))"
        by (intro conjI x a' b n d)
      then show ?thesis by (intro disjI2 exI)
    qed
  qed
  have 6: "?three
          \<and> env = pre @ s # post
          \<and> Parse L e pre w = (Returns None, e1, w1)
          \<and> fst (fst (parseOne L (e1\<lparr>environment := s # post\<rparr>) w1)) \<noteq> None
         \<longrightarrow> r \<noteq> Returns None
             \<and> actual e2 = actual e1
             \<and> dom (map_of (actual e2))
                = dom (map_of (actual e)) \<union> (fst ` Cut ` set pre \<inter> dom (map_of (formal e)))"
  proof (intro impI, elim conjE)
    assume t: ?three and x: "env = pre @ s # post"
      and q: "Parse L e pre w = (Returns None, e1, w1)"
      and f: "fst (fst (parseOne L (e1\<lparr>environment := s # post\<rparr>) w1)) \<noteq> None"
    from f obtain er d e3 w3
      where b: "parseOne L (e1\<lparr>environment := s # post\<rparr>) w1 = ((Some er, d), e3, w3)"
      by (cases "parseOne L (e1\<lparr>environment := s # post\<rparr>) w1") auto
    from t have t': "errorHandling ?p = ContinueOnError \<or> errorHandling ?p = ExitOnError
        \<or> errorHandling ?p = PanicOnError" by simp
    from q have a: "Parse_loop L (?p\<lparr>environment := pre\<rparr>) w = (Returns None, e1, w1)"
      unfolding P .
    have eq: "?p\<lparr>environment := pre @ s # post\<rparr> = ?e" using x by simp
    have ehp: "errorHandling ?p = errorHandling e" by simp
    from Parse_loop_stops [OF t' a b]
    have "(r, e2, w2) = (if errorHandling e = ContinueOnError then Returns (Some er)
              else if errorHandling e = ExitOnError then (if er = ErrHelp then Exits 0 else Exits 2)
              else Panics (PanicError er), e3, w3)"
      unfolding eq ehp l .
    then have r: "r = (if errorHandling e = ContinueOnError then Returns (Some er)
              else if errorHandling e = ExitOnError then (if er = ErrHelp then Exits 0 else Exits 2)
              else Panics (PanicError er))" and e3: "e3 = e2"
      by (simp_all only: prod.inject)
    from parseOne_failed_actual [OF b] e3 have ac: "actual e2 = actual e1" by simp
    from ne [OF r] ac pre_exact [OF t q]
    show "r \<noteq> Returns None
             \<and> actual e2 = actual e1
             \<and> dom (map_of (actual e2))
                = dom (map_of (actual e)) \<union> (fst ` Cut ` set pre \<inter> dom (map_of (formal e)))"
      by simp
  qed
  from 1 2 3 4 5 6 show ?thesis by (intro conjI)
qed

theorem actual_after_Parse_witness:
  "dom (map_of (actual (fst (snd (Parse sample_stdlib (fst (snd first_Parse))
      ([''PORT=1''] @ ''DEBUG=zzz'' # [''COUNT=3'']) (snd (snd first_Parse)))))))
     = {''HOST'', ''PORT''}
   \<and> map_le (map_of (actual (fst (snd (Parse sample_stdlib (fst (snd first_Parse))
      ([''PORT=1''] @ ''DEBUG=zzz'' # [''COUNT=3'']) (snd (snd first_Parse)))))))
        (map_of (formal (fst (snd (Parse sample_stdlib (fst (snd first_Parse))
      ([''PORT=1''] @ ''DEBUG=zzz'' # [''COUNT=3'']) (snd (snd first_Parse)))))))
   \<and> fst (Parse sample_stdlib (fst (snd first_Parse))
      ([''PORT=1''] @ ''DEBUG=zzz'' # [''COUNT=3'']) (snd (snd first_Parse))) \<noteq> Returns None"
proof -
  let ?L = sample_stdlib
  let ?e1 = "fst (snd first_Parse)" and ?w1 = "snd (snd first_Parse)"
  let ?P = "Parse ?L ?e1 ([''PORT=1''] @ ''DEBUG=zzz'' # [''COUNT=3'']) ?w1"
  let ?Q = "Parse ?L ?e1 [''PORT=1''] ?w1"
  let ?S = "parseOne ?L ((fst (snd ?Q))\<lparr>environment := ''DEBUG=zzz'' # [''COUNT=3'']\<rparr>)
      (snd (snd ?Q))"
  have a: "actual ?e1 = [(''HOST'', \<lparr>Name = ''HOST'', Description = ''name of the host'',
      Value = stringValue 0, DefValue = []\<rparr>)]"
    by (simp add: first_Parse_def step_defs sample_defs policy_defs Parse_loop.simps Set_defs)
  have f: "formal ?e1 = sample_formal"
    by (simp add: first_Parse_def step_defs sample_defs policy_defs Parse_loop.simps Set_defs)
  have eh: "errorHandling ?e1 = ContinueOnError"
    by (simp add: first_Parse_def step_defs sample_defs policy_defs Parse_loop.simps Set_defs)
  have d: "dom (map_of (actual ?e1)) = {''HOST''}"
    by (simp add: a)
  have m: "map_le (map_of (actual ?e1)) (map_of (formal ?e1))"
    unfolding a f by (simp add: map_le_def sample_formal_def)
  have "fst ?Q = Returns None"
    by (simp add: first_Parse_def step_defs sample_defs policy_defs Parse_loop.simps Set_defs
        strconv_defs)
  then have q: "?Q = (Returns None, fst (snd ?Q), snd (snd ?Q))"
    by (simp add: prod_eq_iff)
  have s: "fst (fst ?S) \<noteq> None"
    by (simp add: first_Parse_def step_defs sample_defs policy_defs Parse_loop.simps Set_defs
        strconv_defs)
  have p: "?P = (fst ?P, fst (snd ?P), snd (snd ?P))"
    by simp
  have n: "fst ` Cut ` set [''PORT=1''] \<inter> dom (map_of sample_formal) = {''PORT''}"
    by (simp add: Cut_def sample_formal_def dom_map_of_conv_image_fst)
  note t = actual_after_Parse [OF p, where pre = "[''PORT=1'']" and s = "''DEBUG=zzz''"
      and post = "[''COUNT=3'']" and ?e1.0 = "fst (snd ?Q)" and ?w1.0 = "snd (snd ?Q)"]
  note t5 = t [THEN conjunct2, THEN conjunct2, THEN conjunct2, THEN conjunct2, THEN conjunct2]
  have h: "(errorHandling ?e1 = ContinueOnError \<or> errorHandling ?e1 = ExitOnError
            \<or> errorHandling ?e1 = PanicOnError)
          \<and> [''PORT=1''] @ ''DEBUG=zzz'' # [''COUNT=3''] = [''PORT=1''] @ ''DEBUG=zzz'' # [''COUNT=3'']
          \<and> ?Q = (Returns None, fst (snd ?Q), snd (snd ?Q))
          \<and> fst (fst ?S) \<noteq> None"
    by (intro conjI disjI1 eh refl q s)
  from t5 [THEN mp, OF h]
  have "fst ?P \<noteq> Returns None \<and> dom (map_of (actual (fst (snd ?P))))
      = dom (map_of (actual ?e1))
          \<union> (fst ` Cut ` set [''PORT=1''] \<inter> dom (map_of (formal ?e1)))"
    by (intro conjI) (erule conjE, assumption, (erule conjE)+, assumption)
  then have 1: "dom (map_of (actual (fst (snd ?P)))) = {''HOST'', ''PORT''}"
      and 3: "fst ?P \<noteq> Returns None"
    unfolding d f n by auto
  from t [THEN conjunct2, THEN conjunct2, THEN conjunct2, THEN conjunct1, THEN mp, OF m]
  have 2: "map_le (map_of (actual (fst (snd ?P)))) (map_of (formal (fst (snd ?P))))" .
  from 1 2 3 show ?thesis by (intro conjI)
qed


text \<open>
  The claim as stated fails: \<open>HOST\<close> is set by a first call, the second call has an
  empty environment list, and \<open>HOST\<close> is still in \<open>actual\<close> after it.
\<close>

theorem actual_kept_counterexample:
  "fst first_Parse = Returns None
   \<and> dom (map_of (actual (fst (snd first_Parse)))) = {''HOST''}
   \<and> fst (Parse sample_stdlib (fst (snd first_Parse)) [] (snd (snd first_Parse))) = Returns None
   \<and> dom (map_of (actual (fst (snd
        (Parse sample_stdlib (fst (snd first_Parse)) [] (snd (snd first_Parse))))))) = {''HOST''}"
  by (simp add: first_Parse_def step_defs sample_defs policy_defs Parse_loop.simps Set_defs)


section \<open>The empty value of a bool variable\<close>

text \<open>
  C3, as amended. \<open>*boolValue\<close> has the marker \<open>IsBoolVar\<close> and \<open>boolFuncValue\<close> has not,
  and a parse step never reads it. For a declared bool variable the entry \<open>NAME=\<close> calls
  Set with the empty text: false is stored, the step fails with a parse error after
  printing the message and the usage, and the name is not put in \<open>actual\<close>. For a
  BoolFunc variable the callback gets the empty text, and its result decides the step.
\<close>

theorem bool_empty_value:
  assumes "environment e = (nm @ ''='') # rest" and "CHR ''='' \<notin> set nm"
    and "nm \<noteq> ''HELP''" and "nm \<noteq> ''H''"
    and "map_of (formal e) nm = Some spec"
  shows "(Value spec = boolValue p \<longrightarrow>
            IsBoolVar (Value spec) = Some True \<and>
            parseOne L e w =
              ((Some (ErrorsNew (invalid_value L [] nm errParse)), False),
               e\<lparr>environment := rest\<rparr>,
               usage L e (w\<lparr>mem_bool := (mem_bool w)(p := False),
                             sink := sink w @ invalid_value L [] nm errParse @ [CHR 0x0A]\<rparr>)))
       \<and> (Value spec = boolFuncValue f \<longrightarrow>
            IsBoolVar (Value spec) = None \<and>
            parseOne L e w =
              (case f [] w of
                 (None, w1) \<Rightarrow>
                   ((None, False),
                    e\<lparr>environment := rest, actual := AList.update nm spec (actual e)\<rparr>, w1)
               | (Some err, w1) \<Rightarrow>
                   ((Some (ErrorsNew (invalid_value L [] nm err)), False),
                    e\<lparr>environment := rest\<rparr>,
                    usage L e (w1\<lparr>sink := sink w1 @ invalid_value L [] nm err @ [CHR 0x0A]\<rparr>))))"
proof -
  have cut: "Cut (nm @ ''='') = (nm, [])"
    using assms(2) by (simp add: Cut_def takeWhile_append dropWhile_append)
  show ?thesis
    using assms(1,3,4,5)
    by (auto simp: parseOne_def cut boolValue_Set_def ParseBool_def failf_def sprintf_def
        boolFuncValue_Set_def syntaxError_def split: prod.splits option.splits)
qed


theorem bool_empty_value_witness:
  "IsBoolVar (boolValue 0) = Some True
   \<and> parseOne sample_stdlib ((sample_EnvSet ContinueOnError)\<lparr>environment := [''DEBUG='']\<rparr>)
       (zero_world\<lparr>mem_bool := (\<lambda>_. True)\<rparr>)
     = ((Some (ErrorsNew (invalid_value sample_stdlib [] ''DEBUG'' errParse)), False),
        (sample_EnvSet ContinueOnError)\<lparr>environment := []\<rparr>,
        usage sample_stdlib ((sample_EnvSet ContinueOnError)\<lparr>environment := [''DEBUG='']\<rparr>)
          (zero_world\<lparr>mem_bool := (\<lambda>_. True)(0 := False),
             sink := invalid_value sample_stdlib [] ''DEBUG'' errParse @ [CHR 0x0A]\<rparr>))"
  using bool_empty_value
    [of "(sample_EnvSet ContinueOnError)\<lparr>environment := [''DEBUG='']\<rparr>" "''DEBUG''" "[]"
      "\<lparr>Name = ''DEBUG'', Description = ''verbose output'', Value = boolValue 0,
        DefValue = ''false''\<rparr>" 0 sample_stdlib "zero_world\<lparr>mem_bool := (\<lambda>_. True)\<rparr>"]
  by (simp add: sample_EnvSet_def sample_formal_def NewEnvSet_def zero_world_def)


text \<open>
  The claim as stated fails: \<open>DEBUG=\<close> is a parse error, while \<open>DEBUG=true\<close> stores true.
\<close>

theorem bool_empty_value_counterexample:
  "fst (Parse sample_stdlib (sample_EnvSet ContinueOnError) [''DEBUG=''] zero_world)
     = Returns (Some (ErrorsNew (''invalid value '' @ [CHR 0x22, CHR 0x22]
         @ '' for variable DEBUG: parse error'')))
   \<and> map_of (actual (fst (snd
        (Parse sample_stdlib (sample_EnvSet ContinueOnError) [''DEBUG=''] zero_world)))) ''DEBUG''
     = None
   \<and> fst (Parse sample_stdlib (sample_EnvSet ContinueOnError) [''DEBUG=true''] zero_world)
     = Returns None
   \<and> mem_bool (snd (snd
        (Parse sample_stdlib (sample_EnvSet ContinueOnError) [''DEBUG=true''] zero_world))) 0"
  by (simp add: step_defs sample_defs policy_defs Parse_loop.simps Set_defs strconv_defs
      zero_world_def)


section \<open>Declaring a name twice, or a name with an equals sign\<close>

text \<open>
  C6. When the name contains \<open>=\<close> or is already in \<open>formal\<close>, every declaration call
  panics: \<open>Var\<close> with any Value, the eight typed declarations, \<open>TextVar\<close>, \<open>Func\<close> and
  \<open>BoolFunc\<close>. The value of the panic and the text written to the sink are the same for
  every value of the error handling policy, the EnvSet is left as it was, and nothing is
  returned to the caller. The functions without the suffix \<open>Var\<close> (\<open>Bool\<close>, \<open>Int\<close>, ...)
  call these with a new pointer.
\<close>

theorem declaration_faults:
  assumes "CHR ''='' \<in> set nm \<or> map_of (formal e) nm \<noteq> None"
  shows "(\<exists>msg w1. \<forall>eh. Var L (e\<lparr>errorHandling := eh\<rparr>) val nm d w
            = (Panics (PanicString msg), e\<lparr>errorHandling := eh\<rparr>, w1))
    \<and> (\<exists>msg w1. \<forall>eh. BoolVar L (e\<lparr>errorHandling := eh\<rparr>) p nm b d w
            = (Panics (PanicString msg), e\<lparr>errorHandling := eh\<rparr>, w1))
    \<and> (\<exists>msg w1. \<forall>eh. IntVar L (e\<lparr>errorHandling := eh\<rparr>) p nm i d w
            = (Panics (PanicString msg), e\<lparr>errorHandling := eh\<rparr>, w1))
    \<and> (\<exists>msg w1. \<forall>eh. Int64Var L (e\<lparr>errorHandling := eh\<rparr>) p nm i d w
            = (Panics (PanicString msg), e\<lparr>errorHandling := eh\<rparr>, w1))
    \<and> (\<exists>msg w1. \<forall>eh. UintVar L (e\<lparr>errorHandling := eh\<rparr>) p nm n d w
            = (Panics (PanicString msg), e\<lparr>errorHandling := eh\<rparr>, w1))
    \<and> (\<exists>msg w1. \<forall>eh. Uint64Var L (e\<lparr>errorHandling := eh\<rparr>) p nm n d w
            = (Panics (PanicString msg), e\<lparr>errorHandling := eh\<rparr>, w1))
    \<and> (\<exists>msg w1. \<forall>eh. StringVar L (e\<lparr>errorHandling := eh\<rparr>) p nm s d w
            = (Panics (PanicString msg), e\<lparr>errorHandling := eh\<rparr>, w1))
    \<and> (\<exists>msg w1. \<forall>eh. Float64Var L (e\<lparr>errorHandling := eh\<rparr>) p nm x d w
            = (Panics (PanicString msg), e\<lparr>errorHandling := eh\<rparr>, w1))
    \<and> (\<exists>msg w1. \<forall>eh. DurationVar L (e\<lparr>errorHandling := eh\<rparr>) p nm i d w
            = (Panics (PanicString msg), e\<lparr>errorHandling := eh\<rparr>, w1))
    \<and> (\<exists>x w1. \<forall>eh. TextVar L (e\<lparr>errorHandling := eh\<rparr>) tp nm tv d w
            = (Panics x, e\<lparr>errorHandling := eh\<rparr>, w1))
    \<and> (\<exists>msg w1. \<forall>eh. Func L (e\<lparr>errorHandling := eh\<rparr>) nm d fn w
            = (Panics (PanicString msg), e\<lparr>errorHandling := eh\<rparr>, w1))
    \<and> (\<exists>msg w1. \<forall>eh. BoolFunc L (e\<lparr>errorHandling := eh\<rparr>) nm d fn w
            = (Panics (PanicString msg), e\<lparr>errorHandling := eh\<rparr>, w1))"
proof -
  note v = Var_panics [OF assms, of L]
  note t = TextVar_panics [OF assms, of L]
  show ?thesis
    unfolding BoolVar_def IntVar_def Int64Var_def UintVar_def Uint64Var_def StringVar_def
      Float64Var_def DurationVar_def Func_def BoolFunc_def
      newBoolValue_def newIntValue_def newInt64Value_def newUintValue_def newUint64Value_def
      newStringValue_def newFloat64Value_def newDurationValue_def Let_def prod.case
    by (intro conjI v t)
qed

theorem declaration_faults_witness:
  "fst (IntVar sample_stdlib (sample_EnvSet ContinueOnError) 1 ''PORT'' 5 ''again'' zero_world)
     = Panics (PanicString ''app variable redefined: PORT'')
   \<and> fst (Func sample_stdlib (sample_EnvSet ExitOnError) ''PORT'' ''again'' record_call zero_world)
     = Panics (PanicString ''app variable redefined: PORT'')
   \<and> fst (StringVar sample_stdlib (sample_EnvSet PanicOnError) 1 ''A=B'' [] ''bad name'' zero_world)
     = Panics (PanicString (''variable '' @ [CHR 0x22] @ ''A=B'' @ [CHR 0x22] @ '' contains =''))
   \<and> fst (StringVar sample_stdlib (sample_EnvSet PanicOnError) 1 ''USER'' [] ''a new name'' zero_world)
     = Returns ()"
proof -
  have 1: "CHR ''='' \<in> set ''PORT'' \<or> map_of (formal (sample_EnvSet ContinueOnError)) ''PORT'' \<noteq> None"
    by (simp add: sample_defs)
  have e: "(sample_EnvSet ContinueOnError)\<lparr>errorHandling := ExitOnError\<rparr> = sample_EnvSet ExitOnError"
    by (simp add: sample_defs)
  from declaration_faults [OF 1, where L = sample_stdlib and w = zero_world and d = "''again''"
      and fn = record_call, THEN conjunct2, THEN conjunct2, THEN conjunct2, THEN conjunct2,
      THEN conjunct2, THEN conjunct2, THEN conjunct2, THEN conjunct2, THEN conjunct2,
      THEN conjunct2, THEN conjunct1]
  obtain msg w1 where "\<forall>eh. Func sample_stdlib ((sample_EnvSet ContinueOnError)\<lparr>errorHandling := eh\<rparr>)
      ''PORT'' ''again'' record_call zero_world
      = (Panics (PanicString msg), (sample_EnvSet ContinueOnError)\<lparr>errorHandling := eh\<rparr>, w1)"
    by blast
  then have "Func sample_stdlib ((sample_EnvSet ContinueOnError)\<lparr>errorHandling := ExitOnError\<rparr>)
      ''PORT'' ''again'' record_call zero_world
      = (Panics (PanicString msg),
         (sample_EnvSet ContinueOnError)\<lparr>errorHandling := ExitOnError\<rparr>, w1)"
    by (rule spec)
  then have "\<exists>msg. fst (Func sample_stdlib (sample_EnvSet ExitOnError) ''PORT'' ''again'' record_call
      zero_world) = Panics (PanicString msg)"
    unfolding e by simp
  then have b: "fst (Func sample_stdlib (sample_EnvSet ExitOnError) ''PORT'' ''again'' record_call zero_world)
     = Panics (PanicString ''app variable redefined: PORT'')"
    by (simp add: Func_def Var_def sprintf_def sample_EnvSet_def sample_formal_def NewEnvSet_def)
  have a: "fst (IntVar sample_stdlib (sample_EnvSet ContinueOnError) 1 ''PORT'' 5 ''again''
      zero_world) = Panics (PanicString ''app variable redefined: PORT'')"
    by (simp add: IntVar_def newIntValue_def Var_def sprintf_def sample_defs)
  have c: "fst (StringVar sample_stdlib (sample_EnvSet PanicOnError) 1 ''A=B'' [] ''bad name'' zero_world)
     = Panics (PanicString (''variable '' @ [CHR 0x22] @ ''A=B'' @ [CHR 0x22] @ '' contains =''))"
    by (simp add: StringVar_def newStringValue_def Var_def sprintf_def sample_defs)
  have d: "fst (StringVar sample_stdlib (sample_EnvSet PanicOnError) 1 ''USER'' [] ''a new name''
      zero_world) = Returns ()"
    by (simp add: StringVar_def newStringValue_def Var_def sprintf_def sample_defs)
  from a b c d show ?thesis by (intro conjI)
qed


section \<open>The storage cell after a failed Set\<close>



end
